theory Spec2Isabelle
  imports Main "HOL-Library.Multiset" "HOL-Library.Signed_Division"
begin

section \<open>The OCI watcher of pkg/repository/oci_watcher.go\<close>

text \<open>
  The watcher has two methods with logic of their own: \<open>Start\<close>, which registers the
  repository with the helm layer and spawns the periodic loop, and \<open>Poll\<close>, one cycle of
  that loop.  Both are embedded as functions from the outcomes of the collaborators they
  call (record \<open>env\<close>) to the result and the sequence of effects they perform
  (a list of \<open>event\<close>).  A Go panic is the outcome \<open>Panicked\<close>.
\<close>

subsection \<open>Go slices\<close>

text \<open>
  A Go slice is either nil or a (possibly empty) sequence.  \<open>len\<close>, \<open>range\<close> and
  \<open>append\<close> treat a nil slice as an empty one; \<open>append\<close> never returns nil when it
  adds an element, and \<open>make([]T, 0)\<close> is \<open>Slice []\<close>.
\<close>

datatype 'a slice = NilSlice | Slice "'a list"

fun elems :: "'a slice \<Rightarrow> 'a list" where
  "elems NilSlice = []"
| "elems (Slice xs) = xs"

definition len :: "'a slice \<Rightarrow> int" where
  "len s = int (length (elems s))"

definition append_slice :: "'a slice \<Rightarrow> 'a \<Rightarrow> 'a slice" where
  "append_slice s x = Slice (elems s @ [x])"

subsection \<open>Data\<close>

type_synonym time = int

datatype err = AlreadyExists | Failure string

text \<open>\<open>errors.IsAlreadyExists\<close>.\<close>

fun IsAlreadyExists :: "err \<Rightarrow> bool" where
  "IsAlreadyExists AlreadyExists = True"
| "IsAlreadyExists (Failure _) = False"

text \<open>The fields of a helm maintainer and of a helm chart version that the watcher reads.\<close>

record chart_maintainer =
  m_Name :: string
  m_Email :: string
  m_URL :: string

record chart_version =
  cv_Annotations :: "string \<rightharpoonup> string"
  cv_Version :: string
  cv_AppVersion :: string
  cv_Created :: time
  cv_Digest :: string
  cv_Deprecated :: bool
  cv_Description :: string
  cv_Home :: string
  cv_Icon :: string
  cv_Keywords :: "string slice"
  cv_Sources :: "string slice"
  cv_Maintainers :: "chart_maintainer slice"

text \<open>\<open>v1alpha1.Maintainer\<close>, \<open>v1alpha1.ComponentVersion\<close>, \<open>v1.ObjectReference\<close>.\<close>

record maintainer =
  Name :: string
  Email :: string
  URL :: string

record component_version =
  Annotations :: "string \<rightharpoonup> string"
  Version :: string
  AppVersion :: string
  CreatedAt :: time
  Digest :: string
  UpdatedAt :: time
  Deprecated :: bool

record object_reference =
  ref_Kind :: string
  ref_Name :: string
  ref_Namespace :: string
  ref_UID :: string
  ref_APIVersion :: string

record owner_reference =
  own_APIVersion :: string
  own_Kind :: string
  own_Name :: string
  own_UID :: string

text \<open>\<open>v1alpha1.Component\<close>: the object metadata and the status that \<open>Poll\<close> fills.\<close>

record object_meta =
  meta_Name :: string
  meta_Namespace :: string
  meta_Labels :: "string \<rightharpoonup> string"
  meta_OwnerReferences :: "owner_reference list"

record component_status =
  RepositoryRef :: "object_reference option"
  st_Name :: string
  DisplayName :: string
  Versions :: "component_version slice"
  Maintainers :: "maintainer slice"
  Description :: string
  Home :: string
  Icon :: string
  Keywords :: "string slice"
  Sources :: "string slice"

record component =
  ObjectMeta :: object_meta
  Status :: component_status

text \<open>
  \<open>v1alpha1.Repository\<close>, the repository registration: the fields the watcher consumes.
  \<open>KeywordLenLimit\<close> is a Go \<open>int\<close>; it is only compared, never computed with.
\<close>

record repository =
  repo_Kind :: string
  repo_APIVersion :: string
  repo_Name :: string
  repo_Namespace :: string
  repo_UID :: string
  repo_URL :: string
  KeywordLenLimit :: int

typedecl filter_cond

record filter =
  f_Name :: string
  f_Versions :: "chart_version slice"

text \<open>
  Modelled from the spec: the type of a status condition of the repository registration
  is declared outside oci_watcher.go.  The spec calls the conditions timestamped status
  markers, so a condition here is a kind and a time.  The functions \<open>getReadyCond\<close> and
  \<open>getSyncCond\<close> that make one from a time are parameters of the model (record \<open>env\<close>).
\<close>

record condition =
  cond_Type :: string
  cond_Time :: time

record rest_config =
  Host :: string
  CAFile :: string
  BearerToken :: string

record config_flags =
  flag_APIServer :: string
  flag_CAFile :: string
  flag_BearerToken :: string
  flag_Namespace :: string

record repo_entry =
  entry_Name :: string
  entry_URL :: string

text \<open>
  \<open>OCIWatcher\<close>.  \<open>duration\<close> is a \<open>time.Duration\<close> (nanoseconds); the context, the
  client, the logger and the scheme are handles whose use shows in the events.
\<close>

record OCIWatcher =
  inst :: repository
  duration :: int
  repoName :: string
  filterMap :: "string \<rightharpoonup> filter_cond"

subsection \<open>Collaborators and effects\<close>

text \<open>
  Everything the watcher calls outside oci_watcher.go.  A fallible call yields its error
  or its value.  The clock is a sequence: \<open>Now e k\<close> is the reading of the \<open>k\<close>-th call
  of \<open>metav1.Now()\<close> in a cycle.  \<open>order\<close> drives the iteration order of \<open>range\<close> over
  a Go map, which the language leaves open (see \<open>rangeOrder\<close>).
  \<open>SetOwnerReference\<close> yields the new owner references of the object, or \<open>None\<close> when
  it fails and leaves the object as it is; it touches no other field.
  A catalog fetch that reports no error delivers the latest version and the versions
  themselves: no nil pointer among them.  \<open>pkgStart\<close> is the package's function
  \<open>Start\<close>, which the method of the same name calls first.
  \<open>ComponentRepositoryLabel\<close> and \<open>DisplayNameAnnotationKey\<close> are the constants of
  \<open>v1alpha1\<close>.
\<close>

record env =
  Now :: "nat \<Rightarrow> time"
  order :: "nat list"
  pkgStart :: "repository \<Rightarrow> int \<Rightarrow> string \<Rightarrow> err + repo_entry"
  RepoAdd :: "repo_entry \<Rightarrow> int \<Rightarrow> err option"
  RepoUpdate :: "string \<Rightarrow> int \<Rightarrow> err option"
  GetOCIEntryName :: "string \<Rightarrow> string"
  GetConfig :: "err + rest_config"
  GetOCIRepoCharts :: "config_flags \<Rightarrow> string \<Rightarrow> repository \<Rightarrow> err + chart_version \<times> chart_version slice"
  Match :: "(string \<rightharpoonup> filter_cond) \<Rightarrow> filter \<Rightarrow> int slice \<times> bool"
  SetOwnerReference :: "repository \<Rightarrow> component \<Rightarrow> owner_reference list option"
  Create :: "component \<Rightarrow> err option"
  getReadyCond :: "time \<Rightarrow> condition"
  getSyncCond :: "time \<Rightarrow> condition"
  ComponentRepositoryLabel :: string
  DisplayNameAnnotationKey :: string

datatype event =
    LogInfo string
  | LogError err string
  | RepoAddCall repo_entry int
  | RepoUpdateCall string int
  | CreateCall component
  | UpdateRepositoryCall repository condition condition
  | GoWaitUntil int

datatype outcome = Returned | Panicked

fun isCreate :: "event \<Rightarrow> bool" where
  "isCreate (CreateCall _) = True"
| "isCreate _ = False"

fun isUpdateRepository :: "event \<Rightarrow> bool" where
  "isUpdateRepository (UpdateRepositoryCall _ _ _) = True"
| "isUpdateRepository _ = False"

fun isGoWaitUntil :: "event \<Rightarrow> bool" where
  "isGoWaitUntil (GoWaitUntil _) = True"
| "isGoWaitUntil _ = False"

fun isLogError :: "event \<Rightarrow> bool" where
  "isLogError (LogError _ _) = True"
| "isLogError _ = False"

subsection \<open>Start\<close>

text \<open>
  Lines 80-95.  The last event of a successful \<open>Start\<close> is the spawning of
  \<open>wait.Until(c.Poll, c.duration, c.ctx.Done())\<close> in a goroutine (see \<open>Until\<close> below).
  \<open>c.duration/2\<close> is Go's division, which truncates towards zero.
\<close>

definition Start :: "env \<Rightarrow> OCIWatcher \<Rightarrow> err option \<times> event list" where
  "Start e c =
     (case pkgStart e (inst c) (duration c) (repoName c) of
        Inl er \<Rightarrow> (Some er, [])
      | Inr entry0 \<Rightarrow>
          let entry = entry0\<lparr>entry_Name := repoName c, entry_URL := repo_URL (inst c)\<rparr>;
              t = [RepoAddCall entry (duration c sdiv 2)]
          in (case RepoAdd e entry (duration c sdiv 2) of
                Some er \<Rightarrow> (Some er, t @ [LogError er ''Failed to add repository''])
              | None \<Rightarrow> (None, t @ [GoWaitUntil (duration c)])))"

subsection \<open>The loop that Start spawns\<close>

text \<open>
  \<open>wait.Until\<close> belongs to k8s.io/apimachinery, not to this repository; it is modelled
  from its documented contract: it loops until the stop channel is closed, running \<open>f\<close>
  every period, with a sliding timer, that is, the timer for the period starts after
  \<open>f\<close> completes; \<open>f\<close> is not invoked when the stop channel is already closed.  So each
  round first looks at the stop channel, then runs \<open>f\<close>, then waits for the period, and a
  period that is not positive is no wait.

  Times are in nanoseconds, counted from the \<open>go\<close> statement of line 93, after which
  \<open>Start\<close> returns.  A \<open>sched\<close> holds what the scheduler and the cycles decide: how long
  after the \<open>go\<close> statement the goroutine takes its first step, how long the \<open>k\<close>-th call
  of \<open>Poll\<close> runs, and when the context is cancelled, if ever.   The loop need not end,
  so \<open>Until\<close> takes the number of rounds to follow, and yields the times at which \<open>f\<close>
  is called in them.
\<close>

record sched =
  spawnDelay :: nat
  pollTime :: "nat \<Rightarrow> nat"
  cancelAt :: "int option"

definition stopped :: "sched \<Rightarrow> int \<Rightarrow> bool" where
  "stopped s t = (case cancelAt s of None \<Rightarrow> False | Some tc \<Rightarrow> tc \<le> t)"

fun Until :: "nat \<Rightarrow> sched \<Rightarrow> int \<Rightarrow> int \<Rightarrow> nat \<Rightarrow> int list" where
  "Until 0 s period t k = []"
| "Until (Suc fuel) s period t k =
     (if stopped s t then []
      else t # Until fuel s period (t + int (pollTime s k) + max 0 period) (Suc k))"

text \<open>
  The calls of \<open>Poll\<close> that follow a \<open>Start\<close>: those of the loop that its event
  \<open>GoWaitUntil\<close> spawns, none when it spawns no loop.
\<close>

fun loopOf :: "nat \<Rightarrow> sched \<Rightarrow> event \<Rightarrow> int list" where
  "loopOf fuel s (GoWaitUntil d) = Until fuel s d (int (spawnDelay s)) 0"
| "loopOf fuel s _ = []"

definition pollTimes :: "nat \<Rightarrow> sched \<Rightarrow> env \<Rightarrow> OCIWatcher \<Rightarrow> int list" where
  "pollTimes fuel s e c = concat (map (loopOf fuel s) (snd (Start e c)))"

subsection \<open>The steps of Poll\<close>

text \<open>
  Lines 159-168: the map \<open>maintainers\<close>, keyed by name, filled from the latest version's
  maintainers; a name already present is skipped.  The map is an association list with
  one pair per key (it is ranged over afterwards).
\<close>

fun dedupMaintainers ::
  "(string \<times> maintainer) list \<Rightarrow> chart_maintainer list \<Rightarrow> (string \<times> maintainer) list" where
  "dedupMaintainers acc [] = acc"
| "dedupMaintainers acc (m # ms) =
     (if map_of acc (m_Name m) = None
      then dedupMaintainers
             (acc @ [(m_Name m, \<lparr>Name = m_Name m, Email = m_Email m, URL = m_URL m\<rparr>)]) ms
      else dedupMaintainers acc ms)"

text \<open>
  Lines 172-183: one version record per index the filter returned, in that order.
  \<open>all[idx]\<close> panics when \<open>idx\<close> is negative or not below \<open>len(all)\<close>: the result
  \<open>None\<close>.  \<open>k\<close> counts the readings of the clock.
\<close>

fun retainVersions ::
  "env \<Rightarrow> chart_version list \<Rightarrow> int list \<Rightarrow> nat \<Rightarrow> component_version slice
     \<Rightarrow> component_version slice option" where
  "retainVersions e allv [] k acc = Some acc"
| "retainVersions e allv (idx # idxs) k acc =
     (if 0 \<le> idx \<and> idx < int (length allv)
      then let version = allv ! nat idx
           in retainVersions e allv idxs (Suc k)
                (append_slice acc
                   \<lparr>Annotations = cv_Annotations version,
                    Version = cv_Version version,
                    AppVersion = cv_AppVersion version,
                    CreatedAt = cv_Created version,
                    Digest = cv_Digest version,
                    UpdatedAt = Now e k,
                    Deprecated = cv_Deprecated version\<rparr>)
      else None)"

text \<open>Lines 185-188: \<open>keywords[:r]\<close> when \<open>r > 0\<close> and \<open>len(keywords) > r\<close>.\<close>

definition limitKeywords :: "int \<Rightarrow> string slice \<Rightarrow> string slice" where
  "limitKeywords r keywords =
     (if r > 0 \<and> len keywords > r then Slice (take (nat r) (elems keywords)) else keywords)"

text \<open>
  The order in which \<open>range\<close> visits the entries of a Go map is not specified.
  \<open>rangeOrder cs xs\<close> visits the entries \<open>xs\<close> in the order the choices \<open>cs\<close> pick:
  each choice selects one of the entries not yet visited.
\<close>

function rangeOrder :: "nat list \<Rightarrow> 'a list \<Rightarrow> 'a list" where
  "rangeOrder cs [] = []"
| "rangeOrder [] (x # xs) = x # xs"
| "rangeOrder (c # cs) (x # xs) =
     (let i = c mod length (x # xs)
      in (x # xs) ! i # rangeOrder cs (take i (x # xs) @ drop (Suc i) (x # xs)))"
  by pat_completeness auto
termination
  by (relation "measure (\<lambda>(cs, xs). length xs)") auto

text \<open>
  Lines 136-199: the Component that \<open>Poll\<close> hands to the sink, built from the entry
  name, the latest version and all versions.  \<open>None\<close> is the panic of the version loop.
  The clock was read once before (\<open>now\<close>), so the loop starts at reading 1.
\<close>

definition buildItem ::
  "env \<Rightarrow> OCIWatcher \<Rightarrow> string \<Rightarrow> chart_version \<Rightarrow> chart_version slice \<Rightarrow> component option" where
  "buildItem e c entryName latest allv =
     (let item = \<lparr>ObjectMeta =
                    \<lparr>meta_Name = repo_Name (inst c) @ ''.'' @ entryName,
                     meta_Namespace = repo_Namespace (inst c),
                     meta_Labels = [ComponentRepositoryLabel e \<mapsto> repo_Name (inst c)],
                     meta_OwnerReferences = []\<rparr>,
                  Status =
                    \<lparr>RepositoryRef = Some
                       \<lparr>ref_Kind = repo_Kind (inst c),
                        ref_Name = repo_Name (inst c),
                        ref_Namespace = repo_Namespace (inst c),
                        ref_UID = repo_UID (inst c),
                        ref_APIVersion = repo_APIVersion (inst c)\<rparr>,
                     st_Name = entryName,
                     DisplayName =
                       (case cv_Annotations latest (DisplayNameAnnotationKey e) of
                          None \<Rightarrow> [] | Some v \<Rightarrow> v),
                     Versions = Slice [],
                     Maintainers = Slice [],
                     Description = [], Home = [], Icon = [],
                     Keywords = NilSlice, Sources = NilSlice\<rparr>\<rparr>;
          maintainers = dedupMaintainers [] (elems (cv_Maintainers latest));
          item = item\<lparr>Status := (Status item)\<lparr>Versions := Slice []\<rparr>\<rparr>;
          (filterVersionIndices, keep) =
             Match e (filterMap c) \<lparr>f_Name = entryName, f_Versions = allv\<rparr>
      in case (if keep
               then retainVersions e (elems allv) (elems filterVersionIndices) 1
                      (Versions (Status item))
               else Some (Versions (Status item))) of
           None \<Rightarrow> None
         | Some versions \<Rightarrow>
             let item = item\<lparr>Status := (Status item)\<lparr>Versions := versions\<rparr>\<rparr>;
                 keywords = limitKeywords (KeywordLenLimit (inst c)) (cv_Keywords latest);
                 item = item\<lparr>Status := (Status item)
                          \<lparr>Description := cv_Description latest,
                           Home := cv_Home latest,
                           Icon := cv_Icon latest,
                           Keywords := keywords,
                           Sources := cv_Sources latest\<rparr>\<rparr>;
                 item = item\<lparr>Status := (Status item)
                          \<lparr>Maintainers :=
                             foldl append_slice (Maintainers (Status item))
                               (map snd (rangeOrder (order e) maintainers))\<rparr>\<rparr>
             in Some (case SetOwnerReference e (inst c) item of
                        None \<Rightarrow> item
                      | Some refs \<Rightarrow>
                          item\<lparr>ObjectMeta := (ObjectMeta item)\<lparr>meta_OwnerReferences := refs\<rparr>\<rparr>))"

subsection \<open>Poll\<close>

text \<open>Lines 123-128: the struct literal \<open>genericclioptions.ConfigFlags{...}\<close>.\<close>

definition getter :: "rest_config \<Rightarrow> string \<Rightarrow> config_flags" where
  "getter cfg ns =
     \<lparr>flag_APIServer = Host cfg, flag_CAFile = CAFile cfg,
      flag_BearerToken = BearerToken cfg, flag_Namespace = ns\<rparr>"

text \<open>
  Lines 202-206: the create and the log entry that follows it.  An error is logged only
  when there is one and it is not \<open>AlreadyExists\<close>.
\<close>

definition createLog :: "env \<Rightarrow> component \<Rightarrow> event" where
  "createLog e item =
     (case Create e item of
        None \<Rightarrow> LogInfo ''Successfully created component''
      | Some er \<Rightarrow>
          if \<not> IsAlreadyExists er then LogError er ''failed to create component''
          else LogInfo ''Successfully created component'')"

text \<open>
  Lines 106-209.  The three fallible steps before the Component is built log their error
  and return; after them the Component is built and created, and the conditions of the
  repository are updated.
\<close>

definition Poll :: "env \<Rightarrow> OCIWatcher \<Rightarrow> outcome \<times> event list" where
  "Poll e c =
     (let t = [LogInfo ''OCI poll''];
          now = Now e 0;
          readyCond = getReadyCond e now;
          syncCond = getSyncCond e now;
          t = t @ [RepoUpdateCall (repoName c) (duration c sdiv 2)]
      in case RepoUpdate e (repoName c) (duration c sdiv 2) of
           Some er \<Rightarrow> (Returned, t @ [LogError er ''Failed to update repository''])
         | None \<Rightarrow>
             let entryName = GetOCIEntryName e (repo_URL (inst c))
             in (case GetConfig e of
                   Inl er \<Rightarrow> (Returned, t @ [LogError er ''Cannot get config''])
                 | Inr cfg \<Rightarrow>
                     let ns = repo_Namespace (inst c)
                     in (case GetOCIRepoCharts e (getter cfg ns) ns (inst c) of
                           Inl er \<Rightarrow> (Returned, t @ [LogError er ''Cannot get oci repo charts''])
                         | Inr (latest, allv) \<Rightarrow>
                             (case buildItem e c entryName latest allv of
                                None \<Rightarrow> (Panicked, t)
                              | Some item \<Rightarrow>
                                  (Returned,
                                   t @ [LogInfo ''create component'', CreateCall item,
                                        createLog e item,
                                        UpdateRepositoryCall (inst c) readyCond syncCond])))))"

subsection \<open>A concrete cycle\<close>

text \<open>
  A repository with keyword limit 2, whose catalog entry \<open>x\<close> has two versions, five
  keywords and the maintainers a, a, b.  In \<open>env0\<close> every collaborator succeeds, the
  filter keeps the entry and returns the indices 1, 0, and the map of maintainers is
  ranged over starting with its second entry.
\<close>

definition repo0 :: repository where
  "repo0 = \<lparr>repo_Kind = ''Repository'', repo_APIVersion = ''core.kubebb.k8s.com.cn/v1alpha1'',
             repo_Name = ''repo'', repo_Namespace = ''ns'', repo_UID = ''uid-1'',
             repo_URL = ''oci://registry/charts/x'', KeywordLenLimit = 2\<rparr>"

definition watcher0 :: OCIWatcher where
  "watcher0 = \<lparr>inst = repo0, duration = 60, repoName = ''ns.repo'', filterMap = Map.empty\<rparr>"

definition chart0 :: "string \<Rightarrow> string \<Rightarrow> time \<Rightarrow> chart_version" where
  "chart0 v d t =
     \<lparr>cv_Annotations = Map.empty, cv_Version = v, cv_AppVersion = ''app-'' @ v, cv_Created = t,
      cv_Digest = d, cv_Deprecated = False, cv_Description = ''a chart'', cv_Home = ''home'',
      cv_Icon = ''icon'',
      cv_Keywords = Slice [''k1'', ''k2'', ''k3'', ''k4'', ''k5''],
      cv_Sources = NilSlice,
      cv_Maintainers = Slice
        [\<lparr>m_Name = ''a'', m_Email = ''a@first'', m_URL = ''u1''\<rparr>,
         \<lparr>m_Name = ''a'', m_Email = ''a@second'', m_URL = ''u2''\<rparr>,
         \<lparr>m_Name = ''b'', m_Email = ''b@only'', m_URL = ''u3''\<rparr>]\<rparr>"

definition latest0 :: chart_version where
  "latest0 = chart0 ''2.0'' ''sha-2'' 20"

definition all0 :: "chart_version slice" where
  "all0 = Slice [latest0, chart0 ''1.0'' ''sha-1'' 10]"

definition cfg0 :: rest_config where
  "cfg0 = \<lparr>Host = ''h'', CAFile = ''ca'', BearerToken = ''tok''\<rparr>"

definition env0 :: env where
  "env0 = \<lparr>Now = (\<lambda>k. 1000 + int k),
            order = [1],
            pkgStart = (\<lambda>_ _ _. Inr \<lparr>entry_Name = [], entry_URL = []\<rparr>),
            RepoAdd = (\<lambda>_ _. None),
            RepoUpdate = (\<lambda>_ _. None),
            GetOCIEntryName = (\<lambda>_. ''x''),
            GetConfig = Inr cfg0,
            GetOCIRepoCharts = (\<lambda>_ _ _. Inr (latest0, all0)),
            Match = (\<lambda>_ _. (Slice [1, 0], True)),
            SetOwnerReference = (\<lambda>_ _. None),
            Create = (\<lambda>_. None),
            getReadyCond = (\<lambda>t. \<lparr>cond_Type = ''Ready'', cond_Time = t\<rparr>),
            getSyncCond = (\<lambda>t. \<lparr>cond_Type = ''Synced'', cond_Time = t\<rparr>),
            ComponentRepositoryLabel = ''kubebb.component.repository'',
            DisplayNameAnnotationKey = ''core.kubebb.k8s.com.cn/displayname''\<rparr>"

text \<open>The Component of that cycle, with its versions, maintainers and keywords left open.\<close>

definition item0 ::
  "component_version slice \<Rightarrow> maintainer slice \<Rightarrow> string slice \<Rightarrow> component" where
  "item0 vs ms ks =
     \<lparr>ObjectMeta =
        \<lparr>meta_Name = ''repo.x'', meta_Namespace = ''ns'',
         meta_Labels = [''kubebb.component.repository'' \<mapsto> ''repo''],
         meta_OwnerReferences = []\<rparr>,
      Status =
        \<lparr>RepositoryRef = Some
           \<lparr>ref_Kind = ''Repository'', ref_Name = ''repo'', ref_Namespace = ''ns'',
            ref_UID = ''uid-1'', ref_APIVersion = ''core.kubebb.k8s.com.cn/v1alpha1''\<rparr>,
         st_Name = ''x'', DisplayName = [],
         Versions = vs,
         Maintainers = ms,
         Description = ''a chart'', Home = ''home'', Icon = ''icon'',
         Keywords = ks, Sources = NilSlice\<rparr>\<rparr>"

definition versions0 :: "component_version slice" where
  "versions0 = Slice
     [\<lparr>Annotations = Map.empty, Version = ''1.0'', AppVersion = ''app-1.0'', CreatedAt = 10,
       Digest = ''sha-1'', UpdatedAt = 1001, Deprecated = False\<rparr>,
      \<lparr>Annotations = Map.empty, Version = ''2.0'', AppVersion = ''app-2.0'', CreatedAt = 20,
       Digest = ''sha-2'', UpdatedAt = 1002, Deprecated = False\<rparr>]"

definition maintainers0 :: "maintainer slice" where
  "maintainers0 = Slice
     [\<lparr>Name = ''b'', Email = ''b@only'', URL = ''u3''\<rparr>,
      \<lparr>Name = ''a'', Email = ''a@first'', URL = ''u1''\<rparr>]"

definition keywords0 :: "string slice" where
  "keywords0 = Slice [''k1'', ''k2'']"

text \<open>
  Variations of that cycle: a negative keyword limit; a filter that rejects the entry; an
  entry without maintainers that the filter rejects; a sink that already holds the
  Component; a registry that cannot be reached; a catalog that cannot be fetched; a
  cluster configuration that cannot be read.
\<close>

definition watcher_neg :: OCIWatcher where
  "watcher_neg = watcher0\<lparr>inst := repo0\<lparr>KeywordLenLimit := - 1\<rparr>\<rparr>"

definition env_reject :: env where
  "env_reject = env0\<lparr>Match := (\<lambda>_ _. (Slice [0], False))\<rparr>"

definition env_bare :: env where
  "env_bare = env0\<lparr>GetOCIRepoCharts := (\<lambda>_ _ _. Inr (latest0\<lparr>cv_Maintainers := NilSlice\<rparr>, all0)),
                   Match := (\<lambda>_ _. (NilSlice, False))\<rparr>"

definition env_exists :: env where
  "env_exists = env0\<lparr>Create := (\<lambda>_. Some AlreadyExists)\<rparr>"

definition env_down :: env where
  "env_down = env0\<lparr>RepoAdd := (\<lambda>_ _. Some (Failure ''unreachable'')),
                   RepoUpdate := (\<lambda>_ _. Some (Failure ''unreachable''))\<rparr>"

definition env_nofetch :: env where
  "env_nofetch = env0\<lparr>GetOCIRepoCharts := (\<lambda>_ _ _. Inl (Failure ''no catalog''))\<rparr>"

definition env_noconfig :: env where
  "env_noconfig = env0\<lparr>GetConfig := Inl (Failure ''no config'')\<rparr>"

text \<open>
  A schedule in which the goroutine runs at once, every cycle takes 7 ns and the context
  is never cancelled.
\<close>

definition sched0 :: sched where
  "sched0 = \<lparr>spawnDelay = 0, pollTime = (\<lambda>_. 7), cancelAt = None\<rparr>"

section \<open>Auxiliary facts\<close>

subsection \<open>Slices and the order of a range over a map\<close>

lemma foldl_append_slice: "foldl append_slice s xs = (if xs = [] then s else Slice (elems s @ xs))"
  by (induction xs arbitrary: s) (auto simp: append_slice_def)

lemma foldl_append_slice_Slice: "foldl append_slice (Slice ys) xs = Slice (ys @ xs)"
  by (simp add: foldl_append_slice)

lemma mset_remove_nth:
  "i < length xs \<Longrightarrow> add_mset (xs ! i) (mset (take i xs @ drop (Suc i) xs)) = mset xs"
  by (metis append_take_drop_id Cons_nth_drop_Suc mset.simps(2) mset_append union_mset_add_mset_right)

lemma mset_rangeOrder: "mset (rangeOrder cs xs) = mset xs"
proof (induction cs xs rule: rangeOrder.induct)
  case (3 c cs x xs)
  let ?ys = "x # xs"
  let ?i = "c mod length ?ys"
  have i: "?i < length ?ys" by simp
  have "mset (rangeOrder (c # cs) ?ys) = add_mset (?ys ! ?i) (mset (take ?i ?ys @ drop (Suc ?i) ?ys))"
    using 3 by (simp add: Let_def del: take_Suc_Cons drop_Suc_Cons nth_Cons_Suc)
  also have "\<dots> = mset ?ys" using mset_remove_nth[OF i] .
  finally show ?case .
qed simp_all

lemma set_rangeOrder: "set (rangeOrder cs xs) = set xs"
  by (metis mset_rangeOrder set_mset_mset)

lemma distinct_rangeOrder: "distinct (map f (rangeOrder cs xs)) = distinct (map f xs)"
  by (metis mset_rangeOrder mset_map mset_eq_imp_distinct_iff)

lemma rangeOrder_complete: "mset ys = mset xs \<Longrightarrow> \<exists>cs. rangeOrder cs xs = ys"
proof (induction ys arbitrary: xs)
  case Nil
  then show ?case by simp
next
  case (Cons y ys)
  then have "y \<in> set xs" by (metis list.set_intros(1) set_mset_mset)
  then obtain i where i: "i < length xs" "xs ! i = y" by (auto simp: in_set_conv_nth)
  let ?r = "take i xs @ drop (Suc i) xs"
  have "add_mset y (mset ?r) = mset xs" using mset_remove_nth[OF i(1)] i(2) by simp
  with Cons.prems have "add_mset y (mset ys) = add_mset y (mset ?r)" by simp
  then have "mset ys = mset ?r" by (simp only: add_mset_add_mset_same_iff)
  from Cons.IH[OF this] obtain cs where cs: "rangeOrder cs ?r = ys" by blast
  from i obtain x xs' where xs: "xs = x # xs'" by (cases xs) auto
  have "rangeOrder (i # cs) (x # xs') = (x # xs') ! (i mod length (x # xs')) # rangeOrder cs (take (i mod length (x # xs')) (x # xs') @ drop (Suc (i mod length (x # xs'))) (x # xs'))"
    by (simp only: rangeOrder.simps Let_def)
  moreover have "i mod length (x # xs') = i" using i(1) xs by simp
  ultimately have "rangeOrder (i # cs) xs = y # ys" using cs i(2) xs by simp
  then show ?case by blast
qed

subsection \<open>The map of maintainers\<close>

lemma dedup_distinct:
  "distinct (map fst acc) \<Longrightarrow> distinct (map fst (dedupMaintainers acc ms))"
proof (induction ms arbitrary: acc)
  case (Cons m ms)
  show ?case
  proof (cases "map_of acc (m_Name m) = None")
    case True
    then have "m_Name m \<notin> fst ` set acc" by (simp add: map_of_eq_None_iff)
    with Cons.prems have "distinct (map fst (acc @ [(m_Name m, \<lparr>Name = m_Name m, Email = m_Email m, URL = m_URL m\<rparr>)]))"
      by simp
    moreover from True have "dedupMaintainers acc (m # ms) =
        dedupMaintainers (acc @ [(m_Name m, \<lparr>Name = m_Name m, Email = m_Email m, URL = m_URL m\<rparr>)]) ms"
      by simp
    ultimately show ?thesis using Cons.IH by simp
  next
    case False
    then have "dedupMaintainers acc (m # ms) = dedupMaintainers acc ms" by auto
    with Cons.IH[OF Cons.prems] show ?thesis by simp
  qed
qed simp

lemma dedup_keys:
  "fst ` set (dedupMaintainers acc ms) = fst ` set acc \<union> m_Name ` set ms"
proof (induction ms arbitrary: acc)
  case (Cons m ms)
  show ?case
  proof (cases "map_of acc (m_Name m) = None")
    case True
    then show ?thesis using Cons.IH by auto
  next
    case False
    then have "m_Name m \<in> fst ` set acc" by (simp add: map_of_eq_None_iff)
    with False show ?thesis using Cons.IH by auto
  qed
qed simp

lemma dedup_first:
  "(n, r) \<in> set (dedupMaintainers acc ms) \<Longrightarrow>
     (n, r) \<in> set acc \<or>
     (n \<notin> fst ` set acc \<and>
      (\<exists>x. find (\<lambda>x. m_Name x = n) ms = Some x \<and>
           r = \<lparr>Name = m_Name x, Email = m_Email x, URL = m_URL x\<rparr>))"
proof (induction ms arbitrary: acc)
  case (Cons m ms)
  show ?case
  proof (cases "map_of acc (m_Name m) = None")
    case True
    then have notin: "m_Name m \<notin> fst ` set acc" by (simp add: map_of_eq_None_iff)
    let ?p = "(m_Name m, \<lparr>Name = m_Name m, Email = m_Email m, URL = m_URL m\<rparr>)"
    from Cons.prems True have "(n, r) \<in> set (dedupMaintainers (acc @ [?p]) ms)" by simp
    from Cons.IH[OF this] show ?thesis
    proof
      assume "(n, r) \<in> set (acc @ [?p])"
      then show ?thesis using notin by auto
    next
      assume a: "n \<notin> fst ` set (acc @ [?p]) \<and>
        (\<exists>x. find (\<lambda>x. m_Name x = n) ms = Some x \<and> r = \<lparr>Name = m_Name x, Email = m_Email x, URL = m_URL x\<rparr>)"
      then have "m_Name m \<noteq> n" by auto
      with a show ?thesis by auto
    qed
  next
    case False
    then have isin: "m_Name m \<in> fst ` set acc" by (simp add: map_of_eq_None_iff)
    from Cons.prems False have "(n, r) \<in> set (dedupMaintainers acc ms)" by simp
    from Cons.IH[OF this] show ?thesis
    proof
      assume "(n, r) \<in> set acc" then show ?thesis by simp
    next
      assume a: "n \<notin> fst ` set acc \<and>
        (\<exists>x. find (\<lambda>x. m_Name x = n) ms = Some x \<and> r = \<lparr>Name = m_Name x, Email = m_Email x, URL = m_URL x\<rparr>)"
      with isin have "m_Name m \<noteq> n" by auto
      with a show ?thesis by auto
    qed
  qed
qed simp

lemma dedup_Name:
  "(n, r) \<in> set (dedupMaintainers [] ms) \<Longrightarrow> Name r = n"
  using dedup_first[of n r "[]" ms] by (auto dest: find_Some_iff[THEN iffD1])

lemma dedup_map_Name:
  "map (Name \<circ> snd) (rangeOrder cs (dedupMaintainers [] ms)) = map fst (rangeOrder cs (dedupMaintainers [] ms))"
  by (rule map_cong[OF refl]) (auto simp: set_rangeOrder dedup_Name)

subsection \<open>The version loop\<close>

lemma retainVersions_Some:
  assumes "retainVersions e allv idxs k acc = Some r" and "acc \<noteq> NilSlice"
  shows "(\<forall>i\<in>set idxs. 0 \<le> i \<and> i < int (length allv)) \<and>
     r \<noteq> NilSlice \<and>
     map Annotations (elems r) = map Annotations (elems acc) @ map (\<lambda>i. cv_Annotations (allv ! nat i)) idxs \<and>
     map Version (elems r) = map Version (elems acc) @ map (\<lambda>i. cv_Version (allv ! nat i)) idxs \<and>
     map AppVersion (elems r) = map AppVersion (elems acc) @ map (\<lambda>i. cv_AppVersion (allv ! nat i)) idxs \<and>
     map CreatedAt (elems r) = map CreatedAt (elems acc) @ map (\<lambda>i. cv_Created (allv ! nat i)) idxs \<and>
     map Digest (elems r) = map Digest (elems acc) @ map (\<lambda>i. cv_Digest (allv ! nat i)) idxs \<and>
     map Deprecated (elems r) = map Deprecated (elems acc) @ map (\<lambda>i. cv_Deprecated (allv ! nat i)) idxs \<and>
     map UpdatedAt (elems r) = map UpdatedAt (elems acc) @ map (Now e) [k..<k + length idxs]"
  using assms
proof (induction idxs arbitrary: k acc)
  case Nil
  then show ?case by simp
next
  case (Cons idx idxs)
  from Cons.prems(1) have rng: "0 \<le> idx \<and> idx < int (length allv)"
    by (simp split: if_splits)
  let ?v = "\<lparr>Annotations = cv_Annotations (allv ! nat idx),
                    Version = cv_Version (allv ! nat idx),
                    AppVersion = cv_AppVersion (allv ! nat idx),
                    CreatedAt = cv_Created (allv ! nat idx),
                    Digest = cv_Digest (allv ! nat idx),
                    UpdatedAt = Now e k,
                    Deprecated = cv_Deprecated (allv ! nat idx)\<rparr>"
  from Cons.prems(1) rng have "retainVersions e allv idxs (Suc k) (append_slice acc ?v) = Some r"
    by (simp add: Let_def)
  moreover have "append_slice acc ?v \<noteq> NilSlice" by (simp add: append_slice_def)
  ultimately have IH: "(\<forall>i\<in>set idxs. 0 \<le> i \<and> i < int (length allv)) \<and>
     r \<noteq> NilSlice \<and>
     map Annotations (elems r) = map Annotations (elems (append_slice acc ?v)) @ map (\<lambda>i. cv_Annotations (allv ! nat i)) idxs \<and>
     map Version (elems r) = map Version (elems (append_slice acc ?v)) @ map (\<lambda>i. cv_Version (allv ! nat i)) idxs \<and>
     map AppVersion (elems r) = map AppVersion (elems (append_slice acc ?v)) @ map (\<lambda>i. cv_AppVersion (allv ! nat i)) idxs \<and>
     map CreatedAt (elems r) = map CreatedAt (elems (append_slice acc ?v)) @ map (\<lambda>i. cv_Created (allv ! nat i)) idxs \<and>
     map Digest (elems r) = map Digest (elems (append_slice acc ?v)) @ map (\<lambda>i. cv_Digest (allv ! nat i)) idxs \<and>
     map Deprecated (elems r) = map Deprecated (elems (append_slice acc ?v)) @ map (\<lambda>i. cv_Deprecated (allv ! nat i)) idxs \<and>
     map UpdatedAt (elems r) = map UpdatedAt (elems (append_slice acc ?v)) @ map (Now e) [Suc k..<Suc k + length idxs]"
    using Cons.IH by blast
  have "k < k + length (idx # idxs)" by simp
  then have "[k..<k + length (idx # idxs)] = k # [Suc k..<k + length (idx # idxs)]"
    by (rule upt_conv_Cons)
  then have up: "[k..<k + length (idx # idxs)] = k # [Suc k..<Suc k + length idxs]"
    by simp
  show ?case using IH rng unfolding up by (simp add: append_slice_def)
qed

lemma retainVersions_total:
  "\<forall>i\<in>set idxs. 0 \<le> i \<and> i < int (length allv) \<Longrightarrow> retainVersions e allv idxs k acc \<noteq> None"
  by (induction idxs arbitrary: k acc) (simp_all add: Let_def)

lemma retainVersions_panic:
  "\<not> (\<forall>i\<in>set idxs. 0 \<le> i \<and> i < int (length allv)) \<Longrightarrow> retainVersions e allv idxs k acc = None"
  by (induction idxs arbitrary: k acc) (auto simp: Let_def)

subsection \<open>The built Component and the cases of Poll\<close>

lemma buildItem_Some:
  assumes "buildItem e c n latest allv = Some item"
  shows "st_Name (Status item) = n"
    and "Keywords (Status item) = limitKeywords (KeywordLenLimit (inst c)) (cv_Keywords latest)"
    and "Maintainers (Status item) =
           Slice (map snd (rangeOrder (order e) (dedupMaintainers [] (elems (cv_Maintainers latest)))))"
    and "snd (Match e (filterMap c) \<lparr>f_Name = n, f_Versions = allv\<rparr>) \<Longrightarrow>
           retainVersions e (elems allv)
             (elems (fst (Match e (filterMap c) \<lparr>f_Name = n, f_Versions = allv\<rparr>))) 1 (Slice [])
           = Some (Versions (Status item))"
    and "\<not> snd (Match e (filterMap c) \<lparr>f_Name = n, f_Versions = allv\<rparr>) \<Longrightarrow>
           Versions (Status item) = Slice []"
  using assms
  by (auto simp: buildItem_def Let_def foldl_append_slice_Slice
           split: prod.splits option.splits if_splits)

lemma buildItem_None:
  "buildItem e c n latest allv = None \<longleftrightarrow>
     snd (Match e (filterMap c) \<lparr>f_Name = n, f_Versions = allv\<rparr>) \<and>
     retainVersions e (elems allv)
       (elems (fst (Match e (filterMap c) \<lparr>f_Name = n, f_Versions = allv\<rparr>))) 1 (Slice []) = None"
  by (auto simp: buildItem_def Let_def split: prod.splits option.splits if_splits)

lemma createLog_not_Create [simp]: "CreateCall y \<noteq> createLog e x"
  by (simp add: createLog_def split: option.splits)

lemma Poll_refresh_fails:
  "RepoUpdate e (repoName c) (duration c sdiv 2) = Some er \<Longrightarrow>
   Poll e c = (Returned, [LogInfo ''OCI poll'', RepoUpdateCall (repoName c) (duration c sdiv 2),
                          LogError er ''Failed to update repository''])"
  by (simp add: Poll_def)

lemma Poll_config_fails:
  "RepoUpdate e (repoName c) (duration c sdiv 2) = None \<Longrightarrow> GetConfig e = Inl er \<Longrightarrow>
   Poll e c = (Returned, [LogInfo ''OCI poll'', RepoUpdateCall (repoName c) (duration c sdiv 2),
                          LogError er ''Cannot get config''])"
  by (simp add: Poll_def)

lemma Poll_fetch_fails:
  "RepoUpdate e (repoName c) (duration c sdiv 2) = None \<Longrightarrow> GetConfig e = Inr cfg \<Longrightarrow>
   GetOCIRepoCharts e
     (getter cfg (repo_Namespace (inst c))) (repo_Namespace (inst c)) (inst c) = Inl er \<Longrightarrow>
   Poll e c = (Returned, [LogInfo ''OCI poll'', RepoUpdateCall (repoName c) (duration c sdiv 2),
                          LogError er ''Cannot get oci repo charts''])"
  by (simp add: Poll_def)

lemma Poll_fetched:
  "RepoUpdate e (repoName c) (duration c sdiv 2) = None \<Longrightarrow> GetConfig e = Inr cfg \<Longrightarrow>
   GetOCIRepoCharts e
     (getter cfg (repo_Namespace (inst c))) (repo_Namespace (inst c)) (inst c)
     = Inr (latest, allv) \<Longrightarrow>
   Poll e c =
     (case buildItem e c (GetOCIEntryName e (repo_URL (inst c))) latest allv of
        None \<Rightarrow> (Panicked, [LogInfo ''OCI poll'', RepoUpdateCall (repoName c) (duration c sdiv 2)])
      | Some item \<Rightarrow>
          (Returned, [LogInfo ''OCI poll'', RepoUpdateCall (repoName c) (duration c sdiv 2),
                      LogInfo ''create component'', CreateCall item, createLog e item,
                      UpdateRepositoryCall (inst c) (getReadyCond e (Now e 0))
                        (getSyncCond e (Now e 0))]))"
  by (simp add: Poll_def Let_def split: option.splits)

lemma Poll_created:
  assumes "CreateCall item \<in> set (snd (Poll e c))"
  shows "\<exists>cfg latest allv.
           RepoUpdate e (repoName c) (duration c sdiv 2) = None \<and> GetConfig e = Inr cfg \<and>
           GetOCIRepoCharts e
             (getter cfg (repo_Namespace (inst c))) (repo_Namespace (inst c)) (inst c) = Inr (latest, allv) \<and>
           buildItem e c (GetOCIEntryName e (repo_URL (inst c))) latest allv = Some item"
proof (cases "RepoUpdate e (repoName c) (duration c sdiv 2)")
  case (Some er)
  from Poll_refresh_fails[OF this] assms show ?thesis by simp
next
  case None
  show ?thesis
  proof (cases "GetConfig e")
    case (Inl er)
    from Poll_config_fails[OF None this] assms show ?thesis by simp
  next
    case (Inr cfg)
    show ?thesis
    proof (cases "GetOCIRepoCharts e
             (getter cfg (repo_Namespace (inst c))) (repo_Namespace (inst c)) (inst c)")
      case (Inl er)
      from Poll_fetch_fails[OF None Inr this] assms show ?thesis by simp
    next
      case r: (Inr p)
      obtain latest allv where p: "p = (latest, allv)" by (cases p)
      from Poll_fetched[OF None Inr r[unfolded p]] assms
      have "buildItem e c (GetOCIEntryName e (repo_URL (inst c))) latest allv = Some item"
        by (simp split: option.splits)
      with None Inr r p show ?thesis by blast
    qed
  qed
qed

lemma Poll_built:
  assumes "RepoUpdate e (repoName c) (duration c sdiv 2) = None"
    and "GetConfig e = Inr cfg"
    and "GetOCIRepoCharts e (getter cfg (repo_Namespace (inst c))) (repo_Namespace (inst c)) (inst c)
           = Inr (latest, allv)"
    and "buildItem e c (GetOCIEntryName e (repo_URL (inst c))) latest allv = Some item"
  shows "Poll e c =
     (Returned, [LogInfo ''OCI poll'', RepoUpdateCall (repoName c) (duration c sdiv 2),
                 LogInfo ''create component'', CreateCall item, createLog e item,
                 UpdateRepositoryCall (inst c) (getReadyCond e (Now e 0)) (getSyncCond e (Now e 0))])"
  using Poll_fetched[OF assms(1,2,3)] assms(4) by simp

text \<open>
  When the filter keeps the entry, the cycle either creates a Component (all indices are
  indices of the catalog) or panics in the version loop before anything reaches the sink.
\<close>

lemma Poll_index_panics:
  assumes "RepoUpdate e (repoName c) (duration c sdiv 2) = None"
    and "GetConfig e = Inr cfg"
    and "GetOCIRepoCharts e (getter cfg (repo_Namespace (inst c))) (repo_Namespace (inst c)) (inst c)
           = Inr (latest, allv)"
    and "Match e (filterMap c) \<lparr>f_Name = GetOCIEntryName e (repo_URL (inst c)), f_Versions = allv\<rparr>
           = (idxs, True)"
    and "\<not> (\<forall>i\<in>set (elems idxs). 0 \<le> i \<and> i < len allv)"
  shows "Poll e c =
           (Panicked, [LogInfo ''OCI poll'', RepoUpdateCall (repoName c) (duration c sdiv 2)])"
proof -
  have "retainVersions e (elems allv) (elems idxs) 1 (Slice []) = None"
    using assms(5) by (intro retainVersions_panic) (simp add: len_def)
  with assms(4) have "buildItem e c (GetOCIEntryName e (repo_URL (inst c))) latest allv = None"
    by (simp add: buildItem_None)
  with Poll_fetched[OF assms(1,2,3)] show ?thesis by simp
qed

lemma Poll_kept_creates:
  assumes "RepoUpdate e (repoName c) (duration c sdiv 2) = None"
    and "GetConfig e = Inr cfg"
    and "GetOCIRepoCharts e (getter cfg (repo_Namespace (inst c))) (repo_Namespace (inst c)) (inst c)
           = Inr (latest, allv)"
    and "Match e (filterMap c) \<lparr>f_Name = GetOCIEntryName e (repo_URL (inst c)), f_Versions = allv\<rparr>
           = (idxs, True)"
    and "\<forall>i\<in>set (elems idxs). 0 \<le> i \<and> i < len allv"
  shows "\<exists>item. Poll e c =
           (Returned, [LogInfo ''OCI poll'', RepoUpdateCall (repoName c) (duration c sdiv 2),
                       LogInfo ''create component'', CreateCall item, createLog e item,
                       UpdateRepositoryCall (inst c) (getReadyCond e (Now e 0))
                         (getSyncCond e (Now e 0))])"
proof -
  have "retainVersions e (elems allv) (elems idxs) 1 (Slice []) \<noteq> None"
    using assms(5) by (intro retainVersions_total) (simp add: len_def)
  with assms(4) have "buildItem e c (GetOCIEntryName e (repo_URL (inst c))) latest allv \<noteq> None"
    by (simp add: buildItem_None)
  then obtain item where
    "buildItem e c (GetOCIEntryName e (repo_URL (inst c))) latest allv = Some item" by blast
  from Poll_built[OF assms(1,2,3) this] show ?thesis by blast
qed

lemma Poll_created_fetch:
  assumes "GetConfig e = Inr cfg"
    and "GetOCIRepoCharts e (getter cfg (repo_Namespace (inst c))) (repo_Namespace (inst c)) (inst c)
           = Inr (latest, allv)"
    and "CreateCall item \<in> set (snd (Poll e c))"
  shows "buildItem e c (GetOCIEntryName e (repo_URL (inst c))) latest allv = Some item"
  using Poll_created[OF assms(3)] assms(1,2) by auto

lemma limitKeywords_cases:
  "(0 < r \<and> r < len ks \<longrightarrow>
      len (limitKeywords r ks) = r \<and> elems (limitKeywords r ks) = take (nat r) (elems ks)) \<and>
   (r = 0 \<longrightarrow> limitKeywords r ks = ks) \<and>
   (r < 0 \<longrightarrow> limitKeywords r ks = ks) \<and>
   (0 < r \<longrightarrow> len (limitKeywords r ks) \<le> r)"
  by (auto simp: limitKeywords_def len_def)

subsection \<open>Start and its loop\<close>

lemma Until_gap:
  "Suc i < length (Until fuel s p t k) \<Longrightarrow>
   Until fuel s p t k ! Suc i = Until fuel s p t k ! i + int (pollTime s (k + i)) + max 0 p"
proof (induction fuel arbitrary: t k i)
  case 0
  then show ?case by simp
next
  case (Suc fuel)
  from Suc.prems have ns: "\<not> stopped s t" by (auto split: if_splits)
  let ?t' = "t + int (pollTime s k) + max 0 p"
  have u: "Until (Suc fuel) s p t k = t # Until fuel s p ?t' (Suc k)" using ns by simp
  show ?case
  proof (cases i)
    case i0: 0
    from Suc.prems u i0 have "Until fuel s p ?t' (Suc k) \<noteq> []" by auto
    then obtain f where f: "fuel = Suc f" and ns': "\<not> stopped s ?t'"
      by (cases fuel) (auto split: if_splits)
    then have "Until fuel s p ?t' (Suc k) ! 0 = ?t'" by simp
    with u i0 show ?thesis by simp
  next
    case iS: (Suc j)
    from Suc.prems u iS have "Suc j < length (Until fuel s p ?t' (Suc k))" by simp
    from Suc.IH[OF this] u iS show ?thesis by simp
  qed
qed

lemma Start_ok_trace:
  "fst (Start e c) = None \<Longrightarrow>
   \<exists>entry. snd (Start e c) = [RepoAddCall entry (duration c sdiv 2), GoWaitUntil (duration c)]"
  by (auto simp: Start_def Let_def split: sum.splits option.splits)

lemma Start_failed_trace:
  "fst (Start e c) \<noteq> None \<Longrightarrow> \<not> list_ex isGoWaitUntil (snd (Start e c))"
  by (auto simp: Start_def Let_def split: sum.splits option.splits)

lemma pollTimes_ok:
  "fst (Start e c) = None \<Longrightarrow>
   pollTimes fuel s e c = Until fuel s (duration c) (int (spawnDelay s)) 0"
  using Start_ok_trace[of e c] by (auto simp: pollTimes_def)

subsection \<open>The Component of a rejected entry\<close>

lemma buildItem_rejected:
  assumes "\<not> snd (Match e (filterMap c) \<lparr>f_Name = n, f_Versions = allv\<rparr>)"
  shows "\<exists>item. buildItem e c n latest allv = Some item \<and>
     ObjectMeta item =
       \<lparr>meta_Name = repo_Name (inst c) @ ''.'' @ n,
        meta_Namespace = repo_Namespace (inst c),
        meta_Labels = [ComponentRepositoryLabel e \<mapsto> repo_Name (inst c)],
        meta_OwnerReferences =
          (case SetOwnerReference e (inst c)
                  (item\<lparr>ObjectMeta := (ObjectMeta item)\<lparr>meta_OwnerReferences := []\<rparr>\<rparr>) of
             None \<Rightarrow> [] | Some refs \<Rightarrow> refs)\<rparr> \<and>
     Status item =
       \<lparr>RepositoryRef = Some
          \<lparr>ref_Kind = repo_Kind (inst c), ref_Name = repo_Name (inst c),
           ref_Namespace = repo_Namespace (inst c), ref_UID = repo_UID (inst c),
           ref_APIVersion = repo_APIVersion (inst c)\<rparr>,
        st_Name = n,
        DisplayName =
          (case cv_Annotations latest (DisplayNameAnnotationKey e) of None \<Rightarrow> [] | Some v \<Rightarrow> v),
        Versions = Slice [],
        Maintainers =
          Slice (map snd (rangeOrder (order e) (dedupMaintainers [] (elems (cv_Maintainers latest))))),
        Description = cv_Description latest,
        Home = cv_Home latest,
        Icon = cv_Icon latest,
        Keywords = limitKeywords (KeywordLenLimit (inst c)) (cv_Keywords latest),
        Sources = cv_Sources latest\<rparr>"
  using assms
  by (auto simp: buildItem_def Let_def foldl_append_slice_Slice
           split: prod.splits option.splits)

subsection \<open>The concrete cycles\<close>

lemma rangeOrder_two: "rangeOrder [1] [x, y] = [y, x]"
  by (simp add: Let_def)

lemma dedup_latest0:
  "dedupMaintainers [] (elems (cv_Maintainers latest0)) =
     [(''a'', \<lparr>Name = ''a'', Email = ''a@first'', URL = ''u1''\<rparr>),
      (''b'', \<lparr>Name = ''b'', Email = ''b@only'', URL = ''u3''\<rparr>)]"
  by (simp add: latest0_def chart0_def)

lemma retain_all0:
  "retainVersions env0 (elems all0) [1, 0] 1 (Slice []) = Some versions0"
  by (simp add: all0_def latest0_def chart0_def env0_def versions0_def append_slice_def Let_def)

lemma buildItem_env0:
  "buildItem env0 watcher0 ''x'' latest0 all0 = Some (item0 versions0 maintainers0 keywords0)"
  by (simp add: buildItem_def env0_def watcher0_def repo0_def all0_def latest0_def chart0_def
        item0_def versions0_def maintainers0_def keywords0_def rangeOrder_two limitKeywords_def
        len_def append_slice_def Let_def)

lemma Poll_env0:
  "Poll env0 watcher0 =
     (Returned,
      [LogInfo ''OCI poll'', RepoUpdateCall ''ns.repo'' 30, LogInfo ''create component'',
       CreateCall (item0 versions0 maintainers0 keywords0),
       LogInfo ''Successfully created component'',
       UpdateRepositoryCall repo0 \<lparr>cond_Type = ''Ready'', cond_Time = 1000\<rparr>
         \<lparr>cond_Type = ''Synced'', cond_Time = 1000\<rparr>])"
proof -
  have "Poll env0 watcher0 =
     (case buildItem env0 watcher0 (GetOCIEntryName env0 (repo_URL (inst watcher0))) latest0 all0 of
        None \<Rightarrow> (Panicked, [LogInfo ''OCI poll'', RepoUpdateCall (repoName watcher0) (duration watcher0 sdiv 2)])
      | Some item \<Rightarrow>
          (Returned, [LogInfo ''OCI poll'', RepoUpdateCall (repoName watcher0) (duration watcher0 sdiv 2),
                      LogInfo ''create component'', CreateCall item, createLog env0 item,
                      UpdateRepositoryCall (inst watcher0) (getReadyCond env0 (Now env0 0))
                        (getSyncCond env0 (Now env0 0))]))"
    by (rule Poll_fetched[where cfg = cfg0]) (simp_all add: env0_def)
  moreover have "GetOCIEntryName env0 (repo_URL (inst watcher0)) = ''x''" by (simp add: env0_def)
  ultimately show ?thesis
    by (simp add: buildItem_env0 createLog_def) (simp add: env0_def watcher0_def signed_divide_int_def)
qed

lemma fetch_env0:
  "GetConfig env0 = Inr cfg0"
  "GetOCIRepoCharts env0 (getter cfg0 (repo_Namespace (inst watcher0)))
     (repo_Namespace (inst watcher0)) (inst watcher0) = Inr (latest0, all0)"
  by (simp_all add: env0_def)

lemma buildItem_neg:
  "buildItem env0 watcher_neg ''x'' latest0 all0 =
     Some (item0 versions0 maintainers0 (Slice [''k1'', ''k2'', ''k3'', ''k4'', ''k5'']))"
  by (simp add: buildItem_def env0_def watcher_neg_def watcher0_def repo0_def all0_def latest0_def
        chart0_def item0_def versions0_def maintainers0_def rangeOrder_two limitKeywords_def
        len_def append_slice_def Let_def)

lemma Poll_neg:
  "Poll env0 watcher_neg =
     (Returned,
      [LogInfo ''OCI poll'', RepoUpdateCall ''ns.repo'' 30, LogInfo ''create component'',
       CreateCall (item0 versions0 maintainers0 (Slice [''k1'', ''k2'', ''k3'', ''k4'', ''k5''])),
       LogInfo ''Successfully created component'',
       UpdateRepositoryCall (repo0\<lparr>KeywordLenLimit := - 1\<rparr>) \<lparr>cond_Type = ''Ready'', cond_Time = 1000\<rparr>
         \<lparr>cond_Type = ''Synced'', cond_Time = 1000\<rparr>])"
proof -
  have "RepoUpdate env0 (repoName watcher_neg) (duration watcher_neg sdiv 2) = None"
    "GetConfig env0 = Inr cfg0"
    "GetOCIRepoCharts env0 (getter cfg0 (repo_Namespace (inst watcher_neg)))
       (repo_Namespace (inst watcher_neg)) (inst watcher_neg) = Inr (latest0, all0)"
    "buildItem env0 watcher_neg (GetOCIEntryName env0 (repo_URL (inst watcher_neg))) latest0 all0
       = Some (item0 versions0 maintainers0 (Slice [''k1'', ''k2'', ''k3'', ''k4'', ''k5'']))"
    using buildItem_neg by (simp_all add: env0_def)
  from Poll_built[OF this] show ?thesis
    by (simp add: createLog_def) (simp add: env0_def watcher_neg_def watcher0_def signed_divide_int_def)
qed

lemma buildItem_reject:
  "buildItem env_reject watcher0 ''x'' latest0 all0 = Some (item0 (Slice []) maintainers0 keywords0)"
  by (simp add: buildItem_def env_reject_def env0_def watcher0_def repo0_def all0_def latest0_def
        chart0_def item0_def maintainers0_def keywords0_def rangeOrder_two limitKeywords_def
        len_def append_slice_def Let_def)

lemma buildItem_bare:
  "buildItem env_bare watcher0 ''x'' (latest0\<lparr>cv_Maintainers := NilSlice\<rparr>) all0 =
     Some (item0 (Slice []) (Slice []) keywords0)"
  by (simp add: buildItem_def env_bare_def env0_def watcher0_def repo0_def all0_def latest0_def
        chart0_def item0_def keywords0_def limitKeywords_def len_def Let_def)

lemma Poll_bare:
  "Poll env_bare watcher0 =
     (Returned,
      [LogInfo ''OCI poll'', RepoUpdateCall ''ns.repo'' 30, LogInfo ''create component'',
       CreateCall (item0 (Slice []) (Slice []) keywords0),
       LogInfo ''Successfully created component'',
       UpdateRepositoryCall repo0 \<lparr>cond_Type = ''Ready'', cond_Time = 1000\<rparr>
         \<lparr>cond_Type = ''Synced'', cond_Time = 1000\<rparr>])"
proof -
  have "RepoUpdate env_bare (repoName watcher0) (duration watcher0 sdiv 2) = None"
    "GetConfig env_bare = Inr cfg0"
    "GetOCIRepoCharts env_bare (getter cfg0 (repo_Namespace (inst watcher0)))
       (repo_Namespace (inst watcher0)) (inst watcher0)
       = Inr (latest0\<lparr>cv_Maintainers := NilSlice\<rparr>, all0)"
    "buildItem env_bare watcher0 (GetOCIEntryName env_bare (repo_URL (inst watcher0)))
       (latest0\<lparr>cv_Maintainers := NilSlice\<rparr>) all0
       = Some (item0 (Slice []) (Slice []) keywords0)"
    using buildItem_bare by (simp_all add: env_bare_def env0_def)
  from Poll_built[OF this] show ?thesis
    by (simp add: createLog_def) (simp add: env_bare_def env0_def watcher0_def signed_divide_int_def)
qed

lemma buildItem_exists:
  "buildItem env_exists watcher0 ''x'' latest0 all0 = Some (item0 versions0 maintainers0 keywords0)"
  by (simp add: buildItem_def env_exists_def env0_def watcher0_def repo0_def all0_def latest0_def
        chart0_def item0_def versions0_def maintainers0_def keywords0_def rangeOrder_two
        limitKeywords_def len_def append_slice_def Let_def)

lemma Poll_exists:
  "Poll env_exists watcher0 =
     (Returned,
      [LogInfo ''OCI poll'', RepoUpdateCall ''ns.repo'' 30, LogInfo ''create component'',
       CreateCall (item0 versions0 maintainers0 keywords0),
       LogInfo ''Successfully created component'',
       UpdateRepositoryCall repo0 \<lparr>cond_Type = ''Ready'', cond_Time = 1000\<rparr>
         \<lparr>cond_Type = ''Synced'', cond_Time = 1000\<rparr>])"
proof -
  have "RepoUpdate env_exists (repoName watcher0) (duration watcher0 sdiv 2) = None"
    "GetConfig env_exists = Inr cfg0"
    "GetOCIRepoCharts env_exists (getter cfg0 (repo_Namespace (inst watcher0)))
       (repo_Namespace (inst watcher0)) (inst watcher0) = Inr (latest0, all0)"
    "buildItem env_exists watcher0 (GetOCIEntryName env_exists (repo_URL (inst watcher0)))
       latest0 all0 = Some (item0 versions0 maintainers0 keywords0)"
    using buildItem_exists by (simp_all add: env_exists_def env0_def)
  from Poll_built[OF this] show ?thesis
    by (simp add: createLog_def) (simp add: env_exists_def env0_def watcher0_def signed_divide_int_def)
qed

lemma Poll_reject:
  "Poll env_reject watcher0 =
     (Returned,
      [LogInfo ''OCI poll'', RepoUpdateCall ''ns.repo'' 30, LogInfo ''create component'',
       CreateCall (item0 (Slice []) maintainers0 keywords0),
       LogInfo ''Successfully created component'',
       UpdateRepositoryCall repo0 \<lparr>cond_Type = ''Ready'', cond_Time = 1000\<rparr>
         \<lparr>cond_Type = ''Synced'', cond_Time = 1000\<rparr>])"
proof -
  have "RepoUpdate env_reject (repoName watcher0) (duration watcher0 sdiv 2) = None"
    "GetConfig env_reject = Inr cfg0"
    "GetOCIRepoCharts env_reject (getter cfg0 (repo_Namespace (inst watcher0)))
       (repo_Namespace (inst watcher0)) (inst watcher0) = Inr (latest0, all0)"
    "buildItem env_reject watcher0 (GetOCIEntryName env_reject (repo_URL (inst watcher0)))
       latest0 all0 = Some (item0 (Slice []) maintainers0 keywords0)"
    using buildItem_reject by (simp_all add: env_reject_def env0_def)
  from Poll_built[OF this] show ?thesis
    by (simp add: createLog_def) (simp add: env_reject_def env0_def watcher0_def signed_divide_int_def)
qed

lemma Start_env0:
  "Start env0 watcher0 =
     (None, [RepoAddCall \<lparr>entry_Name = ''ns.repo'', entry_URL = ''oci://registry/charts/x''\<rparr> 30,
             GoWaitUntil 60])"
  by (simp add: Start_def env0_def watcher0_def repo0_def signed_divide_int_def)

lemma pollTimes_env0: "pollTimes 3 sched0 env0 watcher0 = [0, 67, 134]"
  by (simp add: pollTimes_def Start_env0 sched0_def stopped_def numeral_3_eq_3)

section \<open>Properties of the watcher\<close>

text \<open>
  C1, as the code has it.  After a successful \<open>Start\<close>, the loop calls \<open>Poll\<close> for the
  first time as soon as its goroutine runs, without waiting for the interval, unless the
  context is cancelled by then; the interval is waited after each call of \<open>Poll\<close>, so
  every later call comes one interval (and the running time of the call before) after
  the one before it.  With an interval of 60 ns and the schedule \<open>sched0\<close> the first
  three calls are at 0, 67 and 134 ns: the first one is not delayed by the interval.
\<close>

theorem first_poll_immediate:
  assumes "fst (Start e c) = None"
    and "\<not> stopped s (int (spawnDelay s))"
  shows "pollTimes (Suc fuel) s e c \<noteq> [] \<and>
         hd (pollTimes (Suc fuel) s e c) = int (spawnDelay s) \<and>
         (\<forall>i. Suc i < length (pollTimes (Suc fuel) s e c) \<longrightarrow>
              pollTimes (Suc fuel) s e c ! Suc i =
                pollTimes (Suc fuel) s e c ! i + int (pollTime s i) + max 0 (duration c))"
proof -
  have p: "pollTimes (Suc fuel) s e c = Until (Suc fuel) s (duration c) (int (spawnDelay s)) 0"
    using pollTimes_ok[OF assms(1)] .
  have "Until (Suc fuel) s (duration c) (int (spawnDelay s)) 0 \<noteq> [] \<and>
        hd (Until (Suc fuel) s (duration c) (int (spawnDelay s)) 0) = int (spawnDelay s)"
    using assms(2) by simp
  moreover have "\<forall>i. Suc i < length (Until (Suc fuel) s (duration c) (int (spawnDelay s)) 0) \<longrightarrow>
      Until (Suc fuel) s (duration c) (int (spawnDelay s)) 0 ! Suc i =
      Until (Suc fuel) s (duration c) (int (spawnDelay s)) 0 ! i + int (pollTime s i) + max 0 (duration c)"
    using Until_gap[of _ "Suc fuel" s "duration c" "int (spawnDelay s)" 0] by simp
  ultimately show ?thesis unfolding p by blast
qed

theorem first_poll_immediate_witness:
  "fst (Start env0 watcher0) = None \<and> \<not> stopped sched0 (int (spawnDelay sched0)) \<and>
   duration watcher0 = 60 \<and>
   pollTimes 3 sched0 env0 watcher0 = [0, 67, 134]"
  using first_poll_immediate[of env0 watcher0 sched0 2] Start_env0 pollTimes_env0
  by (simp add: sched0_def stopped_def watcher0_def)

theorem first_poll_not_delayed_counterexample:
  "fst (Start env0 watcher0) = None \<and> duration watcher0 = 60 \<and>
   pollTimes 3 sched0 env0 watcher0 = [0, 67, 134] \<and>
   hd (pollTimes 3 sched0 env0 watcher0) < duration watcher0"
  using Start_env0 pollTimes_env0 by (simp add: watcher0_def)

text \<open>
  C2, as the code has it.  A cycle whose refresh fails (\<open>e1\<close>), whose config lookup fails
  (\<open>e2\<close>) or whose catalog fetch fails (\<open>e3\<close>) logs that error and returns, and does not
  update the conditions of the repository.  A cycle \<open>e\<close> in which the three succeed and
  which returns creates the Component, logs the outcome of the create, whatever it is,
  and ends by updating the readiness and sync conditions with the one timestamp read
  at its start.  The cycle of \<open>env_down\<close>, whose refresh fails, shows that the update is
  not unconditional.
\<close>

theorem conditions_updated_when_fetched:
  "(RepoUpdate e1 (repoName c) (duration c sdiv 2) = Some er1 \<longrightarrow>
      Poll e1 c =
        (Returned, [LogInfo ''OCI poll'', RepoUpdateCall (repoName c) (duration c sdiv 2),
                    LogError er1 ''Failed to update repository'']) \<and>
      \<not> list_ex isUpdateRepository (snd (Poll e1 c))) \<and>
   (RepoUpdate e2 (repoName c) (duration c sdiv 2) = None \<and> GetConfig e2 = Inl er2 \<longrightarrow>
      Poll e2 c =
        (Returned, [LogInfo ''OCI poll'', RepoUpdateCall (repoName c) (duration c sdiv 2),
                    LogError er2 ''Cannot get config'']) \<and>
      \<not> list_ex isUpdateRepository (snd (Poll e2 c))) \<and>
   (RepoUpdate e3 (repoName c) (duration c sdiv 2) = None \<and> GetConfig e3 = Inr cfg3 \<and>
    GetOCIRepoCharts e3 (getter cfg3 (repo_Namespace (inst c))) (repo_Namespace (inst c)) (inst c)
      = Inl er3 \<longrightarrow>
      Poll e3 c =
        (Returned, [LogInfo ''OCI poll'', RepoUpdateCall (repoName c) (duration c sdiv 2),
                    LogError er3 ''Cannot get oci repo charts'']) \<and>
      \<not> list_ex isUpdateRepository (snd (Poll e3 c))) \<and>
   (RepoUpdate e (repoName c) (duration c sdiv 2) = None \<and> GetConfig e = Inr cfg \<and>
    GetOCIRepoCharts e (getter cfg (repo_Namespace (inst c))) (repo_Namespace (inst c)) (inst c)
      = Inr (latest, allv) \<and>
    fst (Poll e c) = Returned \<longrightarrow>
      (\<exists>item.
         Poll e c =
           (Returned, [LogInfo ''OCI poll'', RepoUpdateCall (repoName c) (duration c sdiv 2),
                       LogInfo ''create component'', CreateCall item, createLog e item,
                       UpdateRepositoryCall (inst c) (getReadyCond e (Now e 0))
                         (getSyncCond e (Now e 0))])) \<and>
      last (snd (Poll e c)) =
        UpdateRepositoryCall (inst c) (getReadyCond e (Now e 0)) (getSyncCond e (Now e 0)))"
proof (intro conjI impI)
  assume a: "RepoUpdate e1 (repoName c) (duration c sdiv 2) = Some er1"
  from Poll_refresh_fails[OF a] show p: "Poll e1 c =
        (Returned, [LogInfo ''OCI poll'', RepoUpdateCall (repoName c) (duration c sdiv 2),
                    LogError er1 ''Failed to update repository''])" .
  show "\<not> list_ex isUpdateRepository (snd (Poll e1 c))" unfolding p by simp
next
  assume a: "RepoUpdate e2 (repoName c) (duration c sdiv 2) = None \<and> GetConfig e2 = Inl er2"
  then show p: "Poll e2 c =
        (Returned, [LogInfo ''OCI poll'', RepoUpdateCall (repoName c) (duration c sdiv 2),
                    LogError er2 ''Cannot get config''])"
    using Poll_config_fails[of e2 c er2] by simp
  show "\<not> list_ex isUpdateRepository (snd (Poll e2 c))" unfolding p by simp
next
  assume a: "RepoUpdate e3 (repoName c) (duration c sdiv 2) = None \<and> GetConfig e3 = Inr cfg3 \<and>
    GetOCIRepoCharts e3 (getter cfg3 (repo_Namespace (inst c))) (repo_Namespace (inst c)) (inst c)
      = Inl er3"
  then show p: "Poll e3 c =
        (Returned, [LogInfo ''OCI poll'', RepoUpdateCall (repoName c) (duration c sdiv 2),
                    LogError er3 ''Cannot get oci repo charts''])"
    using Poll_fetch_fails[of e3 c cfg3 er3] by simp
  show "\<not> list_ex isUpdateRepository (snd (Poll e3 c))" unfolding p by simp
next
  assume a: "RepoUpdate e (repoName c) (duration c sdiv 2) = None \<and> GetConfig e = Inr cfg \<and>
    GetOCIRepoCharts e (getter cfg (repo_Namespace (inst c))) (repo_Namespace (inst c)) (inst c)
      = Inr (latest, allv) \<and>
    fst (Poll e c) = Returned"
  then have f: "Poll e c =
     (case buildItem e c (GetOCIEntryName e (repo_URL (inst c))) latest allv of
        None \<Rightarrow> (Panicked, [LogInfo ''OCI poll'', RepoUpdateCall (repoName c) (duration c sdiv 2)])
      | Some item \<Rightarrow>
          (Returned, [LogInfo ''OCI poll'', RepoUpdateCall (repoName c) (duration c sdiv 2),
                      LogInfo ''create component'', CreateCall item, createLog e item,
                      UpdateRepositoryCall (inst c) (getReadyCond e (Now e 0))
                        (getSyncCond e (Now e 0))]))"
    using Poll_fetched[of e c cfg latest allv] by simp
  with a obtain item where
    p: "Poll e c =
          (Returned, [LogInfo ''OCI poll'', RepoUpdateCall (repoName c) (duration c sdiv 2),
                      LogInfo ''create component'', CreateCall item, createLog e item,
                      UpdateRepositoryCall (inst c) (getReadyCond e (Now e 0))
                        (getSyncCond e (Now e 0))])"
    by (cases "buildItem e c (GetOCIEntryName e (repo_URL (inst c))) latest allv") auto
  then show "\<exists>item.
         Poll e c =
           (Returned, [LogInfo ''OCI poll'', RepoUpdateCall (repoName c) (duration c sdiv 2),
                       LogInfo ''create component'', CreateCall item, createLog e item,
                       UpdateRepositoryCall (inst c) (getReadyCond e (Now e 0))
                         (getSyncCond e (Now e 0))])" by blast
  show "last (snd (Poll e c)) =
        UpdateRepositoryCall (inst c) (getReadyCond e (Now e 0)) (getSyncCond e (Now e 0))"
    unfolding p by simp
qed

theorem conditions_updated_when_fetched_witness:
  "RepoUpdate env_down (repoName watcher0) (duration watcher0 sdiv 2) = Some (Failure ''unreachable'') \<and>
   Poll env_down watcher0 =
     (Returned, [LogInfo ''OCI poll'', RepoUpdateCall ''ns.repo'' 30,
                 LogError (Failure ''unreachable'') ''Failed to update repository'']) \<and>
   RepoUpdate env_noconfig (repoName watcher0) (duration watcher0 sdiv 2) = None \<and>
   GetConfig env_noconfig = Inl (Failure ''no config'') \<and>
   Poll env_noconfig watcher0 =
     (Returned, [LogInfo ''OCI poll'', RepoUpdateCall ''ns.repo'' 30,
                 LogError (Failure ''no config'') ''Cannot get config'']) \<and>
   RepoUpdate env_nofetch (repoName watcher0) (duration watcher0 sdiv 2) = None \<and>
   GetConfig env_nofetch = Inr cfg0 \<and>
   GetOCIRepoCharts env_nofetch (getter cfg0 (repo_Namespace (inst watcher0)))
     (repo_Namespace (inst watcher0)) (inst watcher0) = Inl (Failure ''no catalog'') \<and>
   Poll env_nofetch watcher0 =
     (Returned, [LogInfo ''OCI poll'', RepoUpdateCall ''ns.repo'' 30,
                 LogError (Failure ''no catalog'') ''Cannot get oci repo charts'']) \<and>
   RepoUpdate env0 (repoName watcher0) (duration watcher0 sdiv 2) = None \<and>
   GetConfig env0 = Inr cfg0 \<and>
   GetOCIRepoCharts env0 (getter cfg0 (repo_Namespace (inst watcher0)))
     (repo_Namespace (inst watcher0)) (inst watcher0) = Inr (latest0, all0) \<and>
   fst (Poll env0 watcher0) = Returned \<and>
   last (snd (Poll env0 watcher0)) =
     UpdateRepositoryCall repo0 \<lparr>cond_Type = ''Ready'', cond_Time = 1000\<rparr>
       \<lparr>cond_Type = ''Synced'', cond_Time = 1000\<rparr>"
  using conditions_updated_when_fetched[of env_down watcher0 "Failure ''unreachable''"
          env_noconfig "Failure ''no config''" env_nofetch cfg0 "Failure ''no catalog''"
          env0 cfg0 latest0 all0]
    Poll_env0
  by (simp add: env_down_def env_noconfig_def env_nofetch_def env0_def watcher0_def repo0_def
        signed_divide_int_def)

theorem conditions_not_updated_counterexample:
  "RepoUpdate env_down (repoName watcher0) (duration watcher0 sdiv 2) = Some (Failure ''unreachable'') \<and>
   Poll env_down watcher0 =
     (Returned, [LogInfo ''OCI poll'', RepoUpdateCall ''ns.repo'' 30,
                 LogError (Failure ''unreachable'') ''Failed to update repository'']) \<and>
   \<not> list_ex isUpdateRepository (snd (Poll env_down watcher0))"
proof -
  have r: "RepoUpdate env_down (repoName watcher0) (duration watcher0 sdiv 2) = Some (Failure ''unreachable'')"
    by (simp add: env_down_def env0_def)
  from Poll_refresh_fails[OF r] r show ?thesis
    by (simp add: watcher0_def signed_divide_int_def)
qed

text \<open>
  C3: when the refresh, the config lookup and the fetch succeed and the filter returns
  \<open>keep = false\<close> for the entry, \<open>Poll\<close> still builds a Component for that entry and
  hands it to the sink: named after the repository and the entry, in the repository's
  namespace, labelled with and referring to the repository, owned as
  \<open>SetOwnerReference\<close> decides, carrying the catalog metadata of the latest version
  (display name, description, home, icon, limited keywords, sources, deduplicated
  maintainers), and with an empty version list.
\<close>

theorem rejected_entry_still_created:
  assumes "RepoUpdate e (repoName c) (duration c sdiv 2) = None"
    and "GetConfig e = Inr cfg"
    and "GetOCIRepoCharts e (getter cfg (repo_Namespace (inst c))) (repo_Namespace (inst c)) (inst c)
           = Inr (latest, allv)"
    and "\<not> snd (Match e (filterMap c)
                 \<lparr>f_Name = GetOCIEntryName e (repo_URL (inst c)), f_Versions = allv\<rparr>)"
  shows "\<exists>item.
           Poll e c =
             (Returned, [LogInfo ''OCI poll'', RepoUpdateCall (repoName c) (duration c sdiv 2),
                         LogInfo ''create component'', CreateCall item, createLog e item,
                         UpdateRepositoryCall (inst c) (getReadyCond e (Now e 0))
                           (getSyncCond e (Now e 0))]) \<and>
           ObjectMeta item =
             \<lparr>meta_Name = repo_Name (inst c) @ ''.'' @ GetOCIEntryName e (repo_URL (inst c)),
              meta_Namespace = repo_Namespace (inst c),
              meta_Labels = [ComponentRepositoryLabel e \<mapsto> repo_Name (inst c)],
              meta_OwnerReferences =
                (case SetOwnerReference e (inst c)
                        (item\<lparr>ObjectMeta := (ObjectMeta item)\<lparr>meta_OwnerReferences := []\<rparr>\<rparr>) of
                   None \<Rightarrow> [] | Some refs \<Rightarrow> refs)\<rparr> \<and>
           Status item =
             \<lparr>RepositoryRef = Some
                \<lparr>ref_Kind = repo_Kind (inst c), ref_Name = repo_Name (inst c),
                 ref_Namespace = repo_Namespace (inst c), ref_UID = repo_UID (inst c),
                 ref_APIVersion = repo_APIVersion (inst c)\<rparr>,
              st_Name = GetOCIEntryName e (repo_URL (inst c)),
              DisplayName =
                (case cv_Annotations latest (DisplayNameAnnotationKey e) of
                   None \<Rightarrow> [] | Some v \<Rightarrow> v),
              Versions = Slice [],
              Maintainers =
                Slice (map snd (rangeOrder (order e)
                                  (dedupMaintainers [] (elems (cv_Maintainers latest))))),
              Description = cv_Description latest,
              Home = cv_Home latest,
              Icon = cv_Icon latest,
              Keywords = limitKeywords (KeywordLenLimit (inst c)) (cv_Keywords latest),
              Sources = cv_Sources latest\<rparr>"
proof -
  let ?n = "GetOCIEntryName e (repo_URL (inst c))"
  from buildItem_rejected[OF assms(4), of latest] obtain item where
    item: "buildItem e c ?n latest allv = Some item"
    and rest: "ObjectMeta item =
       \<lparr>meta_Name = repo_Name (inst c) @ ''.'' @ ?n,
        meta_Namespace = repo_Namespace (inst c),
        meta_Labels = [ComponentRepositoryLabel e \<mapsto> repo_Name (inst c)],
        meta_OwnerReferences =
          (case SetOwnerReference e (inst c)
                  (item\<lparr>ObjectMeta := (ObjectMeta item)\<lparr>meta_OwnerReferences := []\<rparr>\<rparr>) of
             None \<Rightarrow> [] | Some refs \<Rightarrow> refs)\<rparr>"
     "Status item =
       \<lparr>RepositoryRef = Some
          \<lparr>ref_Kind = repo_Kind (inst c), ref_Name = repo_Name (inst c),
           ref_Namespace = repo_Namespace (inst c), ref_UID = repo_UID (inst c),
           ref_APIVersion = repo_APIVersion (inst c)\<rparr>,
        st_Name = ?n,
        DisplayName =
          (case cv_Annotations latest (DisplayNameAnnotationKey e) of None \<Rightarrow> [] | Some v \<Rightarrow> v),
        Versions = Slice [],
        Maintainers =
          Slice (map snd (rangeOrder (order e) (dedupMaintainers [] (elems (cv_Maintainers latest))))),
        Description = cv_Description latest,
        Home = cv_Home latest,
        Icon = cv_Icon latest,
        Keywords = limitKeywords (KeywordLenLimit (inst c)) (cv_Keywords latest),
        Sources = cv_Sources latest\<rparr>"
    by blast
  from Poll_built[OF assms(1,2,3) item] rest show ?thesis by blast
qed

theorem rejected_entry_still_created_witness:
  "RepoUpdate env_reject (repoName watcher0) (duration watcher0 sdiv 2) = None \<and>
   GetConfig env_reject = Inr cfg0 \<and>
   GetOCIRepoCharts env_reject (getter cfg0 (repo_Namespace (inst watcher0)))
     (repo_Namespace (inst watcher0)) (inst watcher0) = Inr (latest0, all0) \<and>
   Match env_reject (filterMap watcher0)
     \<lparr>f_Name = GetOCIEntryName env_reject (repo_URL (inst watcher0)), f_Versions = all0\<rparr>
     = (Slice [0], False) \<and>
   Poll env_reject watcher0 =
     (Returned,
      [LogInfo ''OCI poll'', RepoUpdateCall ''ns.repo'' 30, LogInfo ''create component'',
       CreateCall (item0 (Slice []) maintainers0 keywords0),
       LogInfo ''Successfully created component'',
       UpdateRepositoryCall repo0 \<lparr>cond_Type = ''Ready'', cond_Time = 1000\<rparr>
         \<lparr>cond_Type = ''Synced'', cond_Time = 1000\<rparr>]) \<and>
   meta_Name (ObjectMeta (item0 (Slice []) maintainers0 keywords0)) = ''repo.x'' \<and>
   st_Name (Status (item0 (Slice []) maintainers0 keywords0)) = ''x'' \<and>
   Versions (Status (item0 (Slice []) maintainers0 keywords0)) = Slice []"
  using rejected_entry_still_created[of env_reject watcher0 cfg0 latest0 all0] Poll_reject
  by (simp add: env_reject_def env0_def item0_def)

text \<open>
  C4: the maintainers of the Component that \<open>Poll\<close> creates.  No two of them have the same
  name, their names are the names in the latest version's maintainer list, and each one
  carries the fields of the first maintainer of that name in that list.  For the
  maintainers a, a, b this gives exactly two entries, a (from its first occurrence) and
  b, in whatever order the map is ranged over.
\<close>

theorem maintainers_deduplicated:
  assumes "GetConfig e = Inr cfg"
    and "GetOCIRepoCharts e (getter cfg (repo_Namespace (inst c))) (repo_Namespace (inst c)) (inst c)
           = Inr (latest, allv)"
    and "CreateCall item \<in> set (snd (Poll e c))"
  shows "distinct (map Name (elems (Maintainers (Status item)))) \<and>
         set (map Name (elems (Maintainers (Status item)))) =
           set (map m_Name (elems (cv_Maintainers latest))) \<and>
         (\<forall>m\<in>set (elems (Maintainers (Status item))).
            \<exists>x. find (\<lambda>x. m_Name x = Name m) (elems (cv_Maintainers latest)) = Some x \<and>
                m = \<lparr>Name = m_Name x, Email = m_Email x, URL = m_URL x\<rparr>)"
proof -
  let ?src = "elems (cv_Maintainers latest)"
  let ?kvs = "rangeOrder (order e) (dedupMaintainers [] ?src)"
  have ms: "elems (Maintainers (Status item)) = map snd ?kvs"
    using buildItem_Some(3)[OF Poll_created_fetch[OF assms]] by simp
  have names: "map Name (map snd ?kvs) = map fst ?kvs"
    using dedup_map_Name[of "order e" ?src] by simp
  have "distinct (map fst (dedupMaintainers [] ?src))"
    by (rule dedup_distinct) simp
  then have d: "distinct (map fst ?kvs)"
    by (simp add: distinct_rangeOrder)
  have "set (map fst ?kvs) = fst ` set (dedupMaintainers [] ?src)"
    by (simp add: set_rangeOrder)
  also have "\<dots> = set (map m_Name ?src)"
    by (simp add: dedup_keys)
  finally have s: "set (map fst ?kvs) = set (map m_Name ?src)" .
  have f: "\<exists>x. find (\<lambda>x. m_Name x = Name m) ?src = Some x \<and>
                m = \<lparr>Name = m_Name x, Email = m_Email x, URL = m_URL x\<rparr>"
    if "m \<in> set (map snd ?kvs)" for m
  proof -
    from that obtain n where n: "(n, m) \<in> set (dedupMaintainers [] ?src)"
      by (auto simp: set_rangeOrder)
    from dedup_Name[OF n] dedup_first[OF n] show ?thesis by auto
  qed
  from d s f show ?thesis unfolding ms names by blast
qed

theorem maintainers_deduplicated_witness:
  "GetConfig env0 = Inr cfg0 \<and>
   GetOCIRepoCharts env0 (getter cfg0 (repo_Namespace (inst watcher0)))
     (repo_Namespace (inst watcher0)) (inst watcher0) = Inr (latest0, all0) \<and>
   CreateCall (item0 versions0 maintainers0 keywords0) \<in> set (snd (Poll env0 watcher0)) \<and>
   map m_Name (elems (cv_Maintainers latest0)) = [''a'', ''a'', ''b''] \<and>
   elems (Maintainers (Status (item0 versions0 maintainers0 keywords0))) =
     [\<lparr>Name = ''b'', Email = ''b@only'', URL = ''u3''\<rparr>,
      \<lparr>Name = ''a'', Email = ''a@first'', URL = ''u1''\<rparr>] \<and>
   distinct (map Name (elems (Maintainers (Status (item0 versions0 maintainers0 keywords0)))))"
  using maintainers_deduplicated[of env0 cfg0 watcher0 latest0 all0
          "item0 versions0 maintainers0 keywords0"]
    fetch_env0 Poll_env0
  by (simp add: latest0_def chart0_def item0_def maintainers0_def)

text \<open>
  C5: the keyword list of the Component that \<open>Poll\<close> creates.  With a limit \<open>k > 0\<close> and
  more than \<open>k\<close> keywords in the catalog entry, it has length exactly \<open>k\<close> and is the
  first \<open>k\<close> keywords in source order; with limit 0 it is the entry's keyword list
  unchanged; with a positive limit its length never exceeds the limit.
\<close>

theorem keywords_limited:
  assumes "GetConfig e = Inr cfg"
    and "GetOCIRepoCharts e (getter cfg (repo_Namespace (inst c))) (repo_Namespace (inst c)) (inst c)
           = Inr (latest, allv)"
    and "CreateCall item \<in> set (snd (Poll e c))"
  shows "(0 < KeywordLenLimit (inst c) \<and> KeywordLenLimit (inst c) < len (cv_Keywords latest) \<longrightarrow>
            len (Keywords (Status item)) = KeywordLenLimit (inst c) \<and>
            elems (Keywords (Status item)) =
              take (nat (KeywordLenLimit (inst c))) (elems (cv_Keywords latest))) \<and>
         (KeywordLenLimit (inst c) = 0 \<longrightarrow> Keywords (Status item) = cv_Keywords latest) \<and>
         (0 < KeywordLenLimit (inst c) \<longrightarrow> len (Keywords (Status item)) \<le> KeywordLenLimit (inst c))"
proof -
  have "Keywords (Status item) = limitKeywords (KeywordLenLimit (inst c)) (cv_Keywords latest)"
    using buildItem_Some(2)[OF Poll_created_fetch[OF assms]] .
  then show ?thesis
    using limitKeywords_cases[of "KeywordLenLimit (inst c)" "cv_Keywords latest"] by simp
qed

theorem keywords_limited_witness:
  "GetConfig env0 = Inr cfg0 \<and>
   GetOCIRepoCharts env0 (getter cfg0 (repo_Namespace (inst watcher0)))
     (repo_Namespace (inst watcher0)) (inst watcher0) = Inr (latest0, all0) \<and>
   CreateCall (item0 versions0 maintainers0 keywords0) \<in> set (snd (Poll env0 watcher0)) \<and>
   KeywordLenLimit (inst watcher0) = 2 \<and>
   len (cv_Keywords latest0) = 5 \<and>
   elems (Keywords (Status (item0 versions0 maintainers0 keywords0))) = [''k1'', ''k2'']"
  using keywords_limited[of env0 cfg0 watcher0 latest0 all0 "item0 versions0 maintainers0 keywords0"]
    fetch_env0 Poll_env0
  by (simp add: watcher0_def repo0_def latest0_def chart0_def len_def item0_def keywords0_def)

text \<open>
  C6: when the filter keeps the entry, the versions of the Component that \<open>Poll\<close> creates
  are the versions of the catalog at the indices the filter returned, in the order it
  returned them (all of which are then indices of the catalog): each record carries the
  digest, version string, app version, creation time, deprecation flag and annotations
  of its source version, and the updated-at time read from the clock in the loop.
\<close>

theorem kept_versions_follow_filter:
  assumes "GetConfig e = Inr cfg"
    and "GetOCIRepoCharts e (getter cfg (repo_Namespace (inst c))) (repo_Namespace (inst c)) (inst c)
           = Inr (latest, allv)"
    and "Match e (filterMap c) \<lparr>f_Name = GetOCIEntryName e (repo_URL (inst c)), f_Versions = allv\<rparr>
           = (idxs, True)"
    and "CreateCall item \<in> set (snd (Poll e c))"
  shows "(\<forall>i\<in>set (elems idxs). 0 \<le> i \<and> i < len allv) \<and>
         map Digest (elems (Versions (Status item))) =
           map (\<lambda>i. cv_Digest (elems allv ! nat i)) (elems idxs) \<and>
         map Version (elems (Versions (Status item))) =
           map (\<lambda>i. cv_Version (elems allv ! nat i)) (elems idxs) \<and>
         map AppVersion (elems (Versions (Status item))) =
           map (\<lambda>i. cv_AppVersion (elems allv ! nat i)) (elems idxs) \<and>
         map CreatedAt (elems (Versions (Status item))) =
           map (\<lambda>i. cv_Created (elems allv ! nat i)) (elems idxs) \<and>
         map Deprecated (elems (Versions (Status item))) =
           map (\<lambda>i. cv_Deprecated (elems allv ! nat i)) (elems idxs) \<and>
         map Annotations (elems (Versions (Status item))) =
           map (\<lambda>i. cv_Annotations (elems allv ! nat i)) (elems idxs) \<and>
         map UpdatedAt (elems (Versions (Status item))) =
           map (Now e) [1..<1 + length (elems idxs)]"
proof -
  let ?n = "GetOCIEntryName e (repo_URL (inst c))"
  have b: "buildItem e c ?n latest allv = Some item"
    using Poll_created_fetch[OF assms(1,2,4)] .
  have "retainVersions e (elems allv) (elems idxs) 1 (Slice []) = Some (Versions (Status item))"
    using buildItem_Some(4)[OF b] assms(3) by simp
  from retainVersions_Some[OF this] show ?thesis by (simp add: len_def)
qed

theorem kept_versions_follow_filter_witness:
  "GetConfig env0 = Inr cfg0 \<and>
   GetOCIRepoCharts env0 (getter cfg0 (repo_Namespace (inst watcher0)))
     (repo_Namespace (inst watcher0)) (inst watcher0) = Inr (latest0, all0) \<and>
   Match env0 (filterMap watcher0)
     \<lparr>f_Name = GetOCIEntryName env0 (repo_URL (inst watcher0)), f_Versions = all0\<rparr>
     = (Slice [1, 0], True) \<and>
   CreateCall (item0 versions0 maintainers0 keywords0) \<in> set (snd (Poll env0 watcher0)) \<and>
   map cv_Digest (elems all0) = [''sha-2'', ''sha-1''] \<and>
   map Digest (elems (Versions (Status (item0 versions0 maintainers0 keywords0))))
     = [''sha-1'', ''sha-2''] \<and>
   map UpdatedAt (elems (Versions (Status (item0 versions0 maintainers0 keywords0))))
     = [1001, 1002]"
  using kept_versions_follow_filter[of env0 cfg0 watcher0 latest0 all0 "Slice [1, 0]"
          "item0 versions0 maintainers0 keywords0"]
    fetch_env0 Poll_env0
  by (simp add: env0_def all0_def latest0_def chart0_def item0_def versions0_def)

text \<open>
  C7: when the create returns an error, \<open>Poll\<close> still returns normally and its last step
  is the update of the repository's conditions.  An \<open>AlreadyExists\<close> error is logged as
  a success, and the cycle then logs no error at all; any other error is logged as one.
\<close>

theorem create_error_handling:
  assumes "CreateCall item \<in> set (snd (Poll e c))"
    and "Create e item = Some er"
  shows "Poll e c =
           (Returned,
            [LogInfo ''OCI poll'', RepoUpdateCall (repoName c) (duration c sdiv 2),
             LogInfo ''create component'', CreateCall item,
             (if IsAlreadyExists er then LogInfo ''Successfully created component''
              else LogError er ''failed to create component''),
             UpdateRepositoryCall (inst c) (getReadyCond e (Now e 0)) (getSyncCond e (Now e 0))]) \<and>
         (IsAlreadyExists er \<longrightarrow> \<not> list_ex isLogError (snd (Poll e c))) \<and>
         last (snd (Poll e c)) =
           UpdateRepositoryCall (inst c) (getReadyCond e (Now e 0)) (getSyncCond e (Now e 0))"
proof -
  from Poll_created[OF assms(1)] obtain cfg latest allv where
    "RepoUpdate e (repoName c) (duration c sdiv 2) = None" "GetConfig e = Inr cfg"
    "GetOCIRepoCharts e (getter cfg (repo_Namespace (inst c))) (repo_Namespace (inst c)) (inst c)
       = Inr (latest, allv)"
    "buildItem e c (GetOCIEntryName e (repo_URL (inst c))) latest allv = Some item"
    by blast
  from Poll_built[OF this] assms(2) show ?thesis
    by (simp add: createLog_def)
qed

theorem create_error_handling_witness:
  "CreateCall (item0 versions0 maintainers0 keywords0) \<in> set (snd (Poll env_exists watcher0)) \<and>
   Create env_exists (item0 versions0 maintainers0 keywords0) = Some AlreadyExists \<and>
   \<not> list_ex isLogError (snd (Poll env_exists watcher0)) \<and>
   last (snd (Poll env_exists watcher0)) =
     UpdateRepositoryCall repo0 \<lparr>cond_Type = ''Ready'', cond_Time = 1000\<rparr>
       \<lparr>cond_Type = ''Synced'', cond_Time = 1000\<rparr>"
  using create_error_handling[of "item0 versions0 maintainers0 keywords0" env_exists watcher0
          AlreadyExists]
    Poll_exists
  by (simp add: env_exists_def)

text \<open>
  C8: when \<open>helm.RepoAdd\<close> fails, \<open>Start\<close> returns its error after logging it, and does
  not spawn the polling loop.  When the refresh fails in a cycle, or the catalog fetch
  fails (in a cycle \<open>e'\<close> whose refresh succeeded), \<open>Poll\<close> logs the error and returns
  without handing any Component to the sink.
\<close>

theorem transport_failure_abandons:
  "(pkgStart e (inst c) (duration c) (repoName c) = Inr entry0 \<and>
    RepoAdd e (entry0\<lparr>entry_Name := repoName c, entry_URL := repo_URL (inst c)\<rparr>)
      (duration c sdiv 2) = Some er
    \<longrightarrow> Start e c =
          (Some er,
           [RepoAddCall (entry0\<lparr>entry_Name := repoName c, entry_URL := repo_URL (inst c)\<rparr>)
              (duration c sdiv 2),
            LogError er ''Failed to add repository'']) \<and>
        \<not> list_ex isGoWaitUntil (snd (Start e c))) \<and>
   (RepoUpdate e (repoName c) (duration c sdiv 2) = Some er'
    \<longrightarrow> Poll e c =
          (Returned, [LogInfo ''OCI poll'', RepoUpdateCall (repoName c) (duration c sdiv 2),
                      LogError er' ''Failed to update repository'']) \<and>
        \<not> list_ex isCreate (snd (Poll e c))) \<and>
   (RepoUpdate e' (repoName c) (duration c sdiv 2) = None \<and> GetConfig e' = Inr cfg \<and>
    GetOCIRepoCharts e' (getter cfg (repo_Namespace (inst c))) (repo_Namespace (inst c)) (inst c)
      = Inl er''
    \<longrightarrow> Poll e' c =
          (Returned, [LogInfo ''OCI poll'', RepoUpdateCall (repoName c) (duration c sdiv 2),
                      LogError er'' ''Cannot get oci repo charts'']) \<and>
        \<not> list_ex isCreate (snd (Poll e' c)))"
proof (intro conjI impI)
  assume a: "pkgStart e (inst c) (duration c) (repoName c) = Inr entry0 \<and>
    RepoAdd e (entry0\<lparr>entry_Name := repoName c, entry_URL := repo_URL (inst c)\<rparr>)
      (duration c sdiv 2) = Some er"
  then show s: "Start e c =
          (Some er,
           [RepoAddCall (entry0\<lparr>entry_Name := repoName c, entry_URL := repo_URL (inst c)\<rparr>)
              (duration c sdiv 2),
            LogError er ''Failed to add repository''])"
    by (simp add: Start_def Let_def)
  show "\<not> list_ex isGoWaitUntil (snd (Start e c))" unfolding s by simp
next
  assume a: "RepoUpdate e (repoName c) (duration c sdiv 2) = Some er'"
  from Poll_refresh_fails[OF a] show p: "Poll e c =
          (Returned, [LogInfo ''OCI poll'', RepoUpdateCall (repoName c) (duration c sdiv 2),
                      LogError er' ''Failed to update repository''])" .
  show "\<not> list_ex isCreate (snd (Poll e c))" unfolding p by simp
next
  assume a: "RepoUpdate e' (repoName c) (duration c sdiv 2) = None \<and> GetConfig e' = Inr cfg \<and>
    GetOCIRepoCharts e' (getter cfg (repo_Namespace (inst c))) (repo_Namespace (inst c)) (inst c)
      = Inl er''"
  then show p: "Poll e' c =
          (Returned, [LogInfo ''OCI poll'', RepoUpdateCall (repoName c) (duration c sdiv 2),
                      LogError er'' ''Cannot get oci repo charts''])"
    using Poll_fetch_fails[of e' c cfg er''] by simp
  show "\<not> list_ex isCreate (snd (Poll e' c))" unfolding p by simp
qed

theorem transport_failure_abandons_witness:
  "pkgStart env_down (inst watcher0) (duration watcher0) (repoName watcher0)
     = Inr \<lparr>entry_Name = [], entry_URL = []\<rparr> \<and>
   RepoAdd env_down \<lparr>entry_Name = ''ns.repo'', entry_URL = ''oci://registry/charts/x''\<rparr> 30
     = Some (Failure ''unreachable'') \<and>
   Start env_down watcher0 =
     (Some (Failure ''unreachable''),
      [RepoAddCall \<lparr>entry_Name = ''ns.repo'', entry_URL = ''oci://registry/charts/x''\<rparr> 30,
       LogError (Failure ''unreachable'') ''Failed to add repository'']) \<and>
   RepoUpdate env_down (repoName watcher0) (duration watcher0 sdiv 2) = Some (Failure ''unreachable'') \<and>
   Poll env_down watcher0 =
     (Returned, [LogInfo ''OCI poll'', RepoUpdateCall ''ns.repo'' 30,
                 LogError (Failure ''unreachable'') ''Failed to update repository'']) \<and>
   RepoUpdate env_nofetch (repoName watcher0) (duration watcher0 sdiv 2) = None \<and>
   GetConfig env_nofetch = Inr cfg0 \<and>
   GetOCIRepoCharts env_nofetch (getter cfg0 (repo_Namespace (inst watcher0)))
     (repo_Namespace (inst watcher0)) (inst watcher0) = Inl (Failure ''no catalog'') \<and>
   Poll env_nofetch watcher0 =
     (Returned, [LogInfo ''OCI poll'', RepoUpdateCall ''ns.repo'' 30,
                 LogError (Failure ''no catalog'') ''Cannot get oci repo charts''])"
  using transport_failure_abandons[of env_down watcher0 "\<lparr>entry_Name = [], entry_URL = []\<rparr>"
          "Failure ''unreachable''" "Failure ''unreachable''" env_nofetch cfg0 "Failure ''no catalog''"]
  by (simp add: env_down_def env_nofetch_def env0_def watcher0_def repo0_def signed_divide_int_def)

text \<open>
  C9: with a negative keyword limit the Component that \<open>Poll\<close> creates carries the catalog
  entry's full keyword list, as with the limit 0: truncation needs a limit above 0.
\<close>

theorem negative_limit_unlimited:
  assumes "GetConfig e = Inr cfg"
    and "GetOCIRepoCharts e (getter cfg (repo_Namespace (inst c))) (repo_Namespace (inst c)) (inst c)
           = Inr (latest, allv)"
    and "CreateCall item \<in> set (snd (Poll e c))"
    and "KeywordLenLimit (inst c) < 0"
  shows "Keywords (Status item) = cv_Keywords latest \<and>
         limitKeywords (KeywordLenLimit (inst c)) (cv_Keywords latest) =
           limitKeywords 0 (cv_Keywords latest)"
proof -
  have "Keywords (Status item) = limitKeywords (KeywordLenLimit (inst c)) (cv_Keywords latest)"
    using buildItem_Some(2)[OF Poll_created_fetch[OF assms(1,2,3)]] .
  with assms(4) show ?thesis by (simp add: limitKeywords_def)
qed

theorem negative_limit_unlimited_witness:
  "GetConfig env0 = Inr cfg0 \<and>
   GetOCIRepoCharts env0 (getter cfg0 (repo_Namespace (inst watcher_neg)))
     (repo_Namespace (inst watcher_neg)) (inst watcher_neg) = Inr (latest0, all0) \<and>
   CreateCall (item0 versions0 maintainers0 (Slice [''k1'', ''k2'', ''k3'', ''k4'', ''k5'']))
     \<in> set (snd (Poll env0 watcher_neg)) \<and>
   KeywordLenLimit (inst watcher_neg) = - 1 \<and>
   Keywords (Status (item0 versions0 maintainers0 (Slice [''k1'', ''k2'', ''k3'', ''k4'', ''k5''])))
     = cv_Keywords latest0"
  using negative_limit_unlimited[of env0 cfg0 watcher_neg latest0 all0
          "item0 versions0 maintainers0 (Slice [''k1'', ''k2'', ''k3'', ''k4'', ''k5''])"]
    Poll_neg
  by (simp add: env0_def watcher_neg_def watcher0_def repo0_def latest0_def chart0_def item0_def)

text \<open>
  C10: the version list and the maintainer list of the Component that \<open>Poll\<close> creates are
  never nil: both start as empty non-nil slices and are only appended to.  For an entry
  without maintainers that the filter rejects, both are the empty non-nil slice.
\<close>

theorem lists_never_nil:
  assumes "GetConfig e = Inr cfg"
    and "GetOCIRepoCharts e (getter cfg (repo_Namespace (inst c))) (repo_Namespace (inst c)) (inst c)
           = Inr (latest, allv)"
    and "CreateCall item \<in> set (snd (Poll e c))"
  shows "Versions (Status item) \<noteq> NilSlice \<and> Maintainers (Status item) \<noteq> NilSlice \<and>
         (elems (cv_Maintainers latest) = [] \<and>
          \<not> snd (Match e (filterMap c)
                   \<lparr>f_Name = GetOCIEntryName e (repo_URL (inst c)), f_Versions = allv\<rparr>)
          \<longrightarrow> Versions (Status item) = Slice [] \<and> Maintainers (Status item) = Slice [])"
proof -
  let ?n = "GetOCIEntryName e (repo_URL (inst c))"
  let ?keep = "snd (Match e (filterMap c) \<lparr>f_Name = ?n, f_Versions = allv\<rparr>)"
  have b: "buildItem e c ?n latest allv = Some item"
    using Poll_created_fetch[OF assms] .
  have v: "Versions (Status item) \<noteq> NilSlice"
  proof (cases ?keep)
    case True
    from retainVersions_Some[OF buildItem_Some(4)[OF b True]] show ?thesis by simp
  next
    case False
    from buildItem_Some(5)[OF b False] show ?thesis by simp
  qed
  have m: "Maintainers (Status item) \<noteq> NilSlice"
    using buildItem_Some(3)[OF b] by simp
  have "Maintainers (Status item) = Slice []" if "elems (cv_Maintainers latest) = []"
    using buildItem_Some(3)[OF b] that by simp
  with v m buildItem_Some(5)[OF b] show ?thesis by blast
qed

theorem lists_never_nil_witness:
  "GetConfig env_bare = Inr cfg0 \<and>
   GetOCIRepoCharts env_bare (getter cfg0 (repo_Namespace (inst watcher0)))
     (repo_Namespace (inst watcher0)) (inst watcher0)
     = Inr (latest0\<lparr>cv_Maintainers := NilSlice\<rparr>, all0) \<and>
   CreateCall (item0 (Slice []) (Slice []) keywords0) \<in> set (snd (Poll env_bare watcher0)) \<and>
   elems (cv_Maintainers (latest0\<lparr>cv_Maintainers := NilSlice\<rparr>)) = [] \<and>
   Match env_bare (filterMap watcher0)
     \<lparr>f_Name = GetOCIEntryName env_bare (repo_URL (inst watcher0)), f_Versions = all0\<rparr>
     = (NilSlice, False) \<and>
   Versions (Status (item0 (Slice []) (Slice []) keywords0)) = Slice [] \<and>
   Maintainers (Status (item0 (Slice []) (Slice []) keywords0)) = Slice []"
  using lists_never_nil[of env_bare cfg0 watcher0 "latest0\<lparr>cv_Maintainers := NilSlice\<rparr>" all0
          "item0 (Slice []) (Slice []) keywords0"]
    Poll_bare
  by (simp add: env_bare_def env0_def item0_def)

end
